theory Spec2Isabelle
  imports Complex_Main "HOL-Library.Char_ord" "HOL-Library.List_Lexorder" "HOL-Library.Multiset"
begin

section \<open>The license check script: data model\<close>

text \<open>
  The script \<^verbatim>\<open>scripts/check_3pp_licenses.js\<close> fetches the dash-licenses tool, runs it,
  parses the summary it writes, keeps the entries whose status is restricted and
  compares them with a baseline file. Everything the script reads from its environment
  (files, subprocess results, environment variables) is an input of the model; every
  line it prints and the exit code are its result.

  JavaScript strings are modelled as \<^typ>\<open>string\<close>. A value that may be
  \<^verbatim>\<open>undefined\<close> where the source expects a string is a \<^typ>\<open>string option\<close>,
  \<^term>\<open>None\<close> standing for \<^verbatim>\<open>undefined\<close>.
\<close>

subsection \<open>JavaScript values\<close>

text \<open>
  A number that \<^verbatim>\<open>JSON.parse\<close> can return is a finite double or an infinity. The sign
  of zero is not kept: no comparison, truthiness test or string conversion of the script
  depends on it.
\<close>

datatype jsnum = Finite rat | PosInfinity | NegInfinity

text \<open>
  The values \<^verbatim>\<open>JSON.parse\<close> returns, and \<^verbatim>\<open>undefined\<close>. \<open>Obj kvs\<close> is the object
  whose \<^verbatim>\<open>Object.entries\<close> is \<open>kvs\<close>.
\<close>

datatype jsval =
    Undefined
  | Null
  | Bool bool
  | Num jsnum
  | Str string
  | Arr "jsval list"
  | Obj "(string \<times> jsval) list"

text \<open>
  What the script can throw or receive as an error object: the \<^verbatim>\<open>TypeError\<close> of a
  method call on \<^verbatim>\<open>undefined\<close>, and the errors of the node library (file system,
  \<^verbatim>\<open>JSON.parse\<close>, \<^verbatim>\<open>spawnSync\<close>), which are opaque here.
\<close>

datatype jserror = TypeError | HostError string

text \<open>
  One call of \<^verbatim>\<open>console.log\<close>, \<^verbatim>\<open>console.warn\<close> or \<^verbatim>\<open>console.error\<close> with its
  arguments. Arguments that are not strings are kept as values: how node formats them is
  not part of the script.
\<close>

datatype jsarg = Text string | Value jsval | ErrorObject jserror

datatype console = ConsoleLog "jsarg list" | ConsoleWarn "jsarg list" | ConsoleError "jsarg list"

subsection \<open>The host\<close>

text \<open>
  The constants of the module (they depend on the environment variable
  \<^verbatim>\<open>NO_COLOR\<close> and on the directory of the script) and the library functions that are
  taken as given. \<open>toLocaleLowerCase\<close> and \<open>localeCompare\<close> are the methods of
  \<^verbatim>\<open>String.prototype\<close>, which follow the locale of the host; \<open>numberToString\<close>
  is the conversion of a number to a string.
\<close>

record host =
  NO_COLOR :: bool
  dashLicensesJar :: string
  dashLicensesSummary :: string
  dashLicensesBaseline :: string
  toLocaleLowerCase :: "string \<Rightarrow> string"
  localeCompare :: "string \<Rightarrow> string \<Rightarrow> int"
  numberToString :: "jsnum \<Rightarrow> string"

definition dashLicensesUrl :: string where
  "dashLicensesUrl = ''https://repo.eclipse.org/service/local/artifact/maven/redirect?r=dash-licenses&g=org.eclipse.dash&a=org.eclipse.dash.licenses&v=LATEST''"

text \<open>
  The conversion of a template literal, \<^verbatim>\<open>`${v}`\<close>, of a value that is a string or
  \<^verbatim>\<open>undefined\<close>.
\<close>

definition fieldString :: "string option \<Rightarrow> string" where
  "fieldString f = (case f of None \<Rightarrow> ''undefined'' | Some s \<Rightarrow> s)"

fun joinWith :: "string \<Rightarrow> string list \<Rightarrow> string" where
  "joinWith sep [] = []"
| "joinWith sep [x] = x"
| "joinWith sep (x # y # ys) = x @ sep @ joinWith sep (y # ys)"

text \<open>
  The conversion of a template literal, \<^verbatim>\<open>`${v}`\<close>, of any value that
  \<^verbatim>\<open>JSON.parse\<close> returns. An object is converted by its method \<^verbatim>\<open>toString\<close>, then
  by \<^verbatim>\<open>valueOf\<close>. A parsed object inherits both from \<^verbatim>\<open>Object.prototype\<close> and the
  result is \<^verbatim>\<open>[object Object]\<close>, unless it has a property \<^verbatim>\<open>toString\<close> of its own:
  the value of that property is no function, it is passed over, \<^verbatim>\<open>valueOf\<close> gives no
  primitive value either, and the conversion throws a \<^verbatim>\<open>TypeError\<close>. An array is
  converted by \<^verbatim>\<open>join\<close>: its elements converted and separated by commas, with the
  empty string for \<^verbatim>\<open>null\<close> and \<^verbatim>\<open>undefined\<close>.
\<close>

fun toString :: "host \<Rightarrow> jsval \<Rightarrow> jserror + string"
  and elementStrings :: "host \<Rightarrow> jsval list \<Rightarrow> jserror + string list" where
  "toString h Undefined = Inr ''undefined''"
| "toString h Null = Inr ''null''"
| "toString h (Bool b) = Inr (if b then ''true'' else ''false'')"
| "toString h (Num n) = Inr (numberToString h n)"
| "toString h (Str s) = Inr s"
| "toString h (Arr elements) =
     (case elementStrings h elements of
        Inl e \<Rightarrow> Inl e
      | Inr strings \<Rightarrow> Inr (joinWith '','' strings))"
| "toString h (Obj entries) =
     (if ''toString'' \<in> set (map fst entries) then Inl TypeError else Inr ''[object Object]'')"
| "elementStrings h [] = Inr []"
| "elementStrings h (el # elements) =
     (case (if el = Undefined \<or> el = Null then Inr [] else toString h el) of
        Inl e \<Rightarrow> Inl e
      | Inr s \<Rightarrow>
          (case elementStrings h elements of
             Inl e \<Rightarrow> Inl e
           | Inr strings \<Rightarrow> Inr (s # strings)))"

definition fieldValue :: "string option \<Rightarrow> jsval" where
  "fieldValue f = (case f of None \<Rightarrow> Undefined | Some s \<Rightarrow> Str s)"

text \<open>The test of \<^verbatim>\<open>if (v)\<close>. \<^verbatim>\<open>JSON.parse\<close> never returns \<^verbatim>\<open>NaN\<close>.\<close>

definition truthy :: "jsval \<Rightarrow> bool" where
  "truthy v =
     (case v of
        Undefined \<Rightarrow> False
      | Null \<Rightarrow> False
      | Bool b \<Rightarrow> b
      | Num n \<Rightarrow> n \<noteq> Finite 0
      | Str s \<Rightarrow> s \<noteq> []
      | _ \<Rightarrow> True)"

subsection \<open>Console output\<close>

definition style :: "host \<Rightarrow> string \<Rightarrow> string \<Rightarrow> string" where
  "style h code text =
     (if NO_COLOR h then text
      else CHR 0x1B # ''['' @ code @ ''m'' @ text @ CHR 0x1B # ''[0m'')"

definition cyan :: "host \<Rightarrow> string \<Rightarrow> string" where
  "cyan h text = style h ''96'' text"

definition magenta :: "host \<Rightarrow> string \<Rightarrow> string" where
  "magenta h text = style h ''95'' text"

definition yellow :: "host \<Rightarrow> string \<Rightarrow> string" where
  "yellow h text = style h ''93'' text"

definition red :: "host \<Rightarrow> string \<Rightarrow> string" where
  "red h text = style h ''91'' text"

definition info :: "host \<Rightarrow> string \<Rightarrow> console" where
  "info h text = ConsoleWarn [Text (cyan h (''INFO: '' @ text))]"

definition warn :: "host \<Rightarrow> string \<Rightarrow> console" where
  "warn h text = ConsoleWarn [Text (yellow h (''WARN: '' @ text))]"

definition error :: "host \<Rightarrow> string \<Rightarrow> console" where
  "error h text = ConsoleError [Text (red h (''ERROR: '' @ text))]"

section \<open>The summary parser\<close>

text \<open>
  \<^verbatim>\<open>String.prototype.split\<close> with a string separator: the fields between the
  occurrences of the separator, found from left to right. \<open>cur\<close> holds the characters
  of the current field, last one first. An empty separator splits between all characters.
\<close>

fun splitFrom :: "string \<Rightarrow> string \<Rightarrow> string \<Rightarrow> string list" where
  "splitFrom sep cur [] = [rev cur]"
| "splitFrom sep cur (c # cs) =
     (if sep \<noteq> [] \<and> take (length sep) (c # cs) = sep
      then rev cur # splitFrom sep [] (drop (length sep) (c # cs))
      else splitFrom sep (c # cur) cs)"

definition split :: "string \<Rightarrow> string \<Rightarrow> string list" where
  "split sep s = (if sep = [] then map (\<lambda>c. [c]) s else splitFrom sep [] s)"

text \<open>Reading an array element: \<^verbatim>\<open>undefined\<close> beyond the end.\<close>

definition elementAt :: "'a list \<Rightarrow> nat \<Rightarrow> 'a option" where
  "elementAt xs i = (if i < length xs then Some (xs ! i) else None)"

record dashSummaryEntry =
  dependency :: "string option"
  license :: "string option"
  status :: "string option"
  source :: "string option"

text \<open>The body of the loop of \<^verbatim>\<open>readSummaryLines\<close>: one line to one entry.\<close>

definition readSummaryLine :: "string \<Rightarrow> dashSummaryEntry" where
  "readSummaryLine line =
     (let fields = split '', '' line
      in \<lparr> dependency = elementAt fields 0, license = elementAt fields 1,
           status = elementAt fields 2, source = elementAt fields 3 \<rparr>)"

definition readSummaryLines :: "string list \<Rightarrow> dashSummaryEntry list" where
  "readSummaryLines lines = map readSummaryLine lines"

section \<open>The classifier\<close>

text \<open>
  The loop of \<^verbatim>\<open>getRestrictedDependenciesFromSummary\<close> over the entries, \<open>restricted\<close>
  being the array filled so far. \<^verbatim>\<open>entry.status.toLocaleLowerCase()\<close> throws a
  \<^verbatim>\<open>TypeError\<close> when the status is \<^verbatim>\<open>undefined\<close>.
\<close>

fun collectRestricted ::
  "host \<Rightarrow> dashSummaryEntry list \<Rightarrow> dashSummaryEntry list \<Rightarrow> jserror + dashSummaryEntry list" where
  "collectRestricted h restricted [] = Inr restricted"
| "collectRestricted h restricted (entry # entries) =
     (case status entry of
        None \<Rightarrow> Inl TypeError
      | Some s \<Rightarrow>
          collectRestricted h
            (if toLocaleLowerCase h s = ''restricted'' then restricted @ [entry] else restricted)
            entries)"

text \<open>
  The comparison function given to \<^verbatim>\<open>sort\<close>:
  \<^verbatim>\<open>(a, b) => a.dependency.localeCompare(b.dependency)\<close>. The call throws when
  \<^verbatim>\<open>a.dependency\<close> is \<^verbatim>\<open>undefined\<close>; an \<^verbatim>\<open>undefined\<close> argument is converted to
  the string \<^verbatim>\<open>"undefined"\<close>.
\<close>

definition compareDependency :: "host \<Rightarrow> dashSummaryEntry \<Rightarrow> dashSummaryEntry \<Rightarrow> jserror + int" where
  "compareDependency h a b =
     (case dependency a of
        None \<Rightarrow> Inl TypeError
      | Some x \<Rightarrow> Inr (localeCompare h x (fieldString (dependency b))))"

text \<open>
  \<^verbatim>\<open>Array.prototype.sort\<close> with a comparison function. The sort is stable, and with a
  consistent comparison function its result is determined: it is the result of the
  insertion sort below. Which pairs an engine compares is its own choice; that only
  shows when the comparison function throws, which it does not on entries read from a
  summary (their dependency is never \<^verbatim>\<open>undefined\<close>).
\<close>

fun insertSorted :: "('a \<Rightarrow> 'a \<Rightarrow> jserror + int) \<Rightarrow> 'a \<Rightarrow> 'a list \<Rightarrow> jserror + 'a list" where
  "insertSorted cmp x [] = Inr [x]"
| "insertSorted cmp x (y # ys) =
     (case cmp x y of
        Inl e \<Rightarrow> Inl e
      | Inr c \<Rightarrow>
          if c \<le> 0 then Inr (x # y # ys)
          else (case insertSorted cmp x ys of Inl e \<Rightarrow> Inl e | Inr zs \<Rightarrow> Inr (y # zs)))"

fun sortBy :: "('a \<Rightarrow> 'a \<Rightarrow> jserror + int) \<Rightarrow> 'a list \<Rightarrow> jserror + 'a list" where
  "sortBy cmp [] = Inr []"
| "sortBy cmp (x # xs) =
     (case sortBy cmp xs of Inl e \<Rightarrow> Inl e | Inr ys \<Rightarrow> insertSorted cmp x ys)"

text \<open>
  \<^verbatim>\<open>getRestrictedDependenciesFromSummary\<close> on the entries the generator yields;
  \<open>failure\<close> is the error of the read stream, if it fails after the last line it
  delivered.
\<close>

definition getRestrictedDependencies ::
  "host \<Rightarrow> dashSummaryEntry list \<Rightarrow> jserror option \<Rightarrow> jserror + dashSummaryEntry list" where
  "getRestrictedDependencies h entries failure =
     (case collectRestricted h [] entries of
        Inl e \<Rightarrow> Inl e
      | Inr restricted \<Rightarrow>
          (case failure of
             Some e \<Rightarrow> Inl e
           | None \<Rightarrow> sortBy (compareDependency h) restricted))"

definition getRestrictedDependenciesFromSummary ::
  "host \<Rightarrow> string list \<Rightarrow> jserror option \<Rightarrow> jserror + dashSummaryEntry list" where
  "getRestrictedDependenciesFromSummary h lines failure =
     getRestrictedDependencies h (readSummaryLines lines) failure"

subsection \<open>The order of the result\<close>

text \<open>
  A comparison function is consistent when the relation \<open>cmp a b \<le> 0\<close> is total and
  transitive. \<^verbatim>\<open>Array.prototype.sort\<close> promises a sorted result for such functions
  only; the comparison of a collator is one.
\<close>

definition consistentComparator :: "('a \<Rightarrow> 'a \<Rightarrow> int) \<Rightarrow> bool" where
  "consistentComparator cmp \<longleftrightarrow>
     (\<forall>a b. cmp a b \<le> 0 \<or> cmp b a \<le> 0) \<and>
     (\<forall>a b c. cmp a b \<le> 0 \<longrightarrow> cmp b c \<le> 0 \<longrightarrow> cmp a c \<le> 0)"

text \<open>
  Two entries are in ascending order of their dependencies when the comparison of the
  first dependency with the second is not positive.
\<close>

definition dependencyOrder :: "host \<Rightarrow> dashSummaryEntry \<Rightarrow> dashSummaryEntry \<Rightarrow> bool" where
  "dependencyOrder h a b \<longleftrightarrow>
     (case (dependency a, dependency b) of
        (Some x, Some y) \<Rightarrow> localeCompare h x y \<le> 0
      | _ \<Rightarrow> False)"

section \<open>The baseline\<close>

text \<open>
  A key of a \<^verbatim>\<open>Map\<close> or \<^verbatim>\<open>Set\<close>. Primitive values are the same key when they are
  equal; an object or an array is the same key only as itself, so it carries its
  identity: its index in the array it was read from.
\<close>

datatype key = Primitive jsval | Reference nat jsval

definition keyValue :: "key \<Rightarrow> jsval" where
  "keyValue k = (case k of Primitive v \<Rightarrow> v | Reference i v \<Rightarrow> v)"

definition toKey :: "nat \<Rightarrow> jsval \<Rightarrow> key" where
  "toKey i v = (case v of Arr _ \<Rightarrow> Reference i v | Obj _ \<Rightarrow> Reference i v | _ \<Rightarrow> Primitive v)"

definition fieldKey :: "string option \<Rightarrow> key" where
  "fieldKey f = Primitive (fieldValue f)"

text \<open>A \<^verbatim>\<open>Map\<close>: its entries in insertion order, no key twice.\<close>

type_synonym jsmap = "(key \<times> jsval) list"

definition mapHas :: "jsmap \<Rightarrow> key \<Rightarrow> bool" where
  "mapHas m k = (k \<in> set (map fst m))"

definition mapGet :: "jsmap \<Rightarrow> key \<Rightarrow> jsval" where
  "mapGet m k = (case map_of m k of None \<Rightarrow> Undefined | Some v \<Rightarrow> v)"

definition mapKeys :: "jsmap \<Rightarrow> key list" where
  "mapKeys m = map fst m"

definition mapSet :: "jsmap \<Rightarrow> key \<Rightarrow> jsval \<Rightarrow> jsmap" where
  "mapSet m k v =
     (if mapHas m k then map (\<lambda>(k', v'). if k' = k then (k', v) else (k', v')) m
      else m @ [(k, v)])"

text \<open>\<^verbatim>\<open>new Map(pairs)\<close>: each pair is set in turn.\<close>

definition newMap :: "(key \<times> jsval) list \<Rightarrow> jsmap" where
  "newMap pairs = foldl (\<lambda>m (k, v). mapSet m k v) [] pairs"

text \<open>A \<^verbatim>\<open>Set\<close>: its elements in insertion order, none twice.\<close>

type_synonym jsset = "key list"

definition setAdd :: "jsset \<Rightarrow> key \<Rightarrow> jsset" where
  "setAdd s k = (if k \<in> set s then s else s @ [k])"

definition newSet :: "key list \<Rightarrow> jsset" where
  "newSet ks = foldl setAdd [] ks"

definition setDelete :: "jsset \<Rightarrow> key \<Rightarrow> jsset" where
  "setDelete s k = filter (\<lambda>k'. k' \<noteq> k) s"

section \<open>Running the script\<close>

text \<open>
  A part of the script prints lines and then either goes on with a value, or ends the
  process (\<^verbatim>\<open>process.exit\<close>), or throws.
\<close>

datatype 'a completion = Normal 'a | Exit int | Throw jserror

type_synonym 'a proc = "console list \<times> 'a completion"

definition ret :: "'a \<Rightarrow> 'a proc" where
  "ret x = ([], Normal x)"

definition print :: "console \<Rightarrow> unit proc" where
  "print c = ([c], Normal ())"

definition exit :: "int \<Rightarrow> 'a proc" where
  "exit code = ([], Exit code)"

definition throw :: "jserror \<Rightarrow> 'a proc" where
  "throw e = ([], Throw e)"

definition bindProc :: "'a proc \<Rightarrow> ('a \<Rightarrow> 'b proc) \<Rightarrow> 'b proc" where
  "bindProc m f =
     (case m of
        (out, Normal x) \<Rightarrow> (case f x of (out', r) \<Rightarrow> (out @ out', r))
      | (out, Exit code) \<Rightarrow> (out, Exit code)
      | (out, Throw e) \<Rightarrow> (out, Throw e))"

definition thenProc :: "unit proc \<Rightarrow> 'b proc \<Rightarrow> 'b proc" where
  "thenProc m k = bindProc m (\<lambda>_. k)"

text \<open>A call of the node library that returns nothing and may throw.\<close>

definition hostCall :: "jserror option \<Rightarrow> unit proc" where
  "hostCall failure = (case failure of None \<Rightarrow> ret () | Some e \<Rightarrow> throw e)"

definition fromResult :: "jserror + 'a \<Rightarrow> 'a proc" where
  "fromResult r = (case r of Inl e \<Rightarrow> throw e | Inr x \<Rightarrow> ret x)"

subsection \<open>The baseline loader\<close>

text \<open>
  \<open>json\<close> is what \<^verbatim>\<open>JSON.parse(fs.readFileSync(baseline, 'utf8'))\<close> gives: a value,
  or the error either call throws.
\<close>

definition readBaseline :: "host \<Rightarrow> jserror + jsval \<Rightarrow> jsmap proc" where
  "readBaseline h json =
     bindProc (fromResult json) (\<lambda>json.
       case json of
         Arr elements \<Rightarrow>
           ret (newMap (map (\<lambda>(i, element). (toKey i element, Null)) (enumerate 0 elements)))
       | Obj entries \<Rightarrow>
           ret (newMap (map (\<lambda>(k, v). (Primitive (Str k), v)) entries))
       | _ \<Rightarrow>
           thenProc
             (print (ConsoleError
                [Text (''ERROR: Invalid format for '' @ [CHR 0x22] @ dashLicensesBaseline h
                       @ [CHR 0x22])]))
             (exit 1))"

subsection \<open>Subprocesses\<close>

text \<open>
  What \<^verbatim>\<open>child_process.spawnSync\<close> returns (the fields the script reads: \<^verbatim>\<open>error\<close>,
  \<^verbatim>\<open>status\<close>, \<^verbatim>\<open>signal\<close>), and the same object with the fields \<^verbatim>\<open>spawn\<close> adds.
\<close>

record spawnSyncReturns =
  spawn_error :: "jserror option"
  spawn_status :: "int option"
  spawn_signal :: "string option"

record spawnStatus = spawnSyncReturns +
  bin :: string
  args :: "string list"

definition spawned :: "string \<Rightarrow> string list \<Rightarrow> spawnSyncReturns \<Rightarrow> spawnStatus" where
  "spawned b as r = spawnSyncReturns.extend r \<lparr> bin = b, args = as \<rparr>"

text \<open>\<^verbatim>\<open>spawn\<close>, \<open>r\<close> being what \<^verbatim>\<open>cp.spawnSync\<close> returns.\<close>

definition spawn :: "string \<Rightarrow> string list \<Rightarrow> spawnSyncReturns \<Rightarrow> spawnStatus proc" where
  "spawn b as r =
     (let st = spawned b as r
      in case spawn_error st of
           Some e \<Rightarrow> thenProc (print (ConsoleError [ErrorObject e])) (exit 1)
         | None \<Rightarrow> ret st)"

text \<open>
  \<^verbatim>\<open>JSON.stringify(strings, undefined, indent)\<close> on an array of strings: each string
  quoted, one to a line.
\<close>

definition hexDigit :: "nat \<Rightarrow> char" where
  "hexDigit n = ''0123456789abcdef'' ! (n mod 16)"

definition quoteChar :: "char \<Rightarrow> string" where
  "quoteChar c =
     (if c = CHR 0x08 then [CHR 0x5C, CHR ''b'']
      else if c = CHR 0x09 then [CHR 0x5C, CHR ''t'']
      else if c = CHR 0x0A then [CHR 0x5C, CHR ''n'']
      else if c = CHR 0x0C then [CHR 0x5C, CHR ''f'']
      else if c = CHR 0x0D then [CHR 0x5C, CHR ''r'']
      else if c = CHR 0x22 then [CHR 0x5C, CHR 0x22]
      else if c = CHR 0x5C then [CHR 0x5C, CHR 0x5C]
      else if (of_char c :: nat) < 32
      then CHR 0x5C # ''u00'' @ [hexDigit (of_char c div 16), hexDigit (of_char c mod 16)]
      else [c])"

definition quote :: "string \<Rightarrow> string" where
  "quote s = [CHR 0x22] @ concat (map quoteChar s) @ [CHR 0x22]"

definition stringifyStrings :: "string list \<Rightarrow> nat \<Rightarrow> string" where
  "stringifyStrings strings indent =
     (if strings = [] then ''[]''
      else ''['' @ [CHR 0x0A] @ replicate indent CHR '' ''
           @ joinWith ('','' @ [CHR 0x0A] @ replicate indent CHR '' '') (map quote strings)
           @ [CHR 0x0A] @ '']'')"

definition prettyCommand :: "spawnStatus \<Rightarrow> string" where
  "prettyCommand st = stringifyStrings (bin st # args st) 2"

text \<open>The decimal notation of an integer: what a template literal gives for an exit code.\<close>

function digitsOf :: "nat \<Rightarrow> string" where
  "digitsOf n = (if n < 10 then [hexDigit n] else digitsOf (n div 10) @ [hexDigit (n mod 10)])"
  by pat_completeness auto
termination
  by (relation "measure (\<lambda>n. n)") auto

definition intToString :: "int \<Rightarrow> string" where
  "intToString i = (if i < 0 then ''-'' @ digitsOf (nat (- i)) else digitsOf (nat i))"

definition getErrorFromStatus :: "spawnStatus \<Rightarrow> string option" where
  "getErrorFromStatus st =
     (case spawn_signal st of
        Some s \<Rightarrow> Some (''Command '' @ prettyCommand st @ '' exited with signal: '' @ s)
      | None \<Rightarrow>
          if spawn_status st \<noteq> Some 0
          then Some (''Command '' @ prettyCommand st @ '' exited with code: ''
                     @ (case spawn_status st of
                          None \<Rightarrow> ''null''
                        | Some code \<Rightarrow> intToString code))
          else None)"

subsection \<open>Reconciliation with the baseline\<close>

text \<open>
  The call of \<^verbatim>\<open>restricted.filter\<close> in \<^verbatim>\<open>main\<close>: its callback deletes the dependency
  of each entry from the set \<open>unmatched\<close> and keeps the entry when the baseline does not
  have its dependency. The result is the set after the last call and the filtered array.
\<close>

fun filterUnhandled ::
  "jsmap \<Rightarrow> jsset \<Rightarrow> dashSummaryEntry list \<Rightarrow> jsset \<times> dashSummaryEntry list" where
  "filterUnhandled baseline unmatched [] = (unmatched, [])"
| "filterUnhandled baseline unmatched (entry # entries) =
     (let unmatched' = setDelete unmatched (fieldKey (dependency entry));
          keep = \<not> mapHas baseline (fieldKey (dependency entry));
          (unmatched'', unhandled) = filterUnhandled baseline unmatched' entries
      in (unmatched'', if keep then entry # unhandled else unhandled))"

definition reconcile :: "jsmap \<Rightarrow> dashSummaryEntry list \<Rightarrow> jsset \<times> dashSummaryEntry list" where
  "reconcile baseline restricted = filterUnhandled baseline (newSet (mapKeys baseline)) restricted"

definition printAll :: "console list \<Rightarrow> unit proc" where
  "printAll cs = (cs, Normal ())"

text \<open>The line \<^verbatim>\<open>logRestrictedDashSummaryEntries\<close> prints for one entry.\<close>

definition restrictedLine :: "host \<Rightarrow> dashSummaryEntry \<Rightarrow> console" where
  "restrictedLine h e =
     ConsoleLog [Text (red h (''X '' @ fieldString (dependency e) @ '', ''
                              @ fieldString (license e)))]"

definition logRestrictedDashSummaryEntries :: "host \<Rightarrow> dashSummaryEntry list \<Rightarrow> unit proc" where
  "logRestrictedDashSummaryEntries h entries = printAll (map (restrictedLine h) entries)"

text \<open>
  The body of the loop over \<open>unmatched\<close>, for a key whose conversion to a string gave
  \<open>name\<close>: the key, then the key and its data when the data is truthy.
\<close>

definition unmatchedLines :: "host \<Rightarrow> jsmap \<Rightarrow> key \<Rightarrow> string \<Rightarrow> console list" where
  "unmatchedLines h baseline k name =
     ConsoleLog [Text (magenta h (''> '' @ name))]
     # (let data = mapGet baseline k
        in if truthy data then [ConsoleWarn [Text (name @ '':''), Value data]] else [])"

text \<open>
  The loop over \<open>unmatched\<close>. The template literal of the first statement converts
  the key to a string; when that throws, the loop and \<^verbatim>\<open>main\<close> end there.
\<close>

fun reportKeys :: "host \<Rightarrow> jsmap \<Rightarrow> key list \<Rightarrow> unit proc" where
  "reportKeys h baseline [] = ret ()"
| "reportKeys h baseline (k # ks) =
     (case toString h (keyValue k) of
        Inl e \<Rightarrow> throw e
      | Inr name \<Rightarrow>
          thenProc (printAll (unmatchedLines h baseline k name)) (reportKeys h baseline ks))"

definition reportUnmatched :: "host \<Rightarrow> jsmap \<Rightarrow> jsset \<Rightarrow> unit proc" where
  "reportUnmatched h baseline unmatched =
     (if length unmatched > 0
      then thenProc
             (print (warn h ''Some entries in the baseline did not match anything from dash-licenses output:''))
             (reportKeys h baseline unmatched)
      else ret ())"

text \<open>
  What the loop prints for one key: the lines of its body, or nothing when the
  conversion of the key throws.
\<close>

definition keyLines :: "host \<Rightarrow> jsmap \<Rightarrow> key \<Rightarrow> console list" where
  "keyLines h baseline k =
     (case toString h (keyValue k) of
        Inl e \<Rightarrow> []
      | Inr name \<Rightarrow> unmatchedLines h baseline k name)"

text \<open>The part of \<^verbatim>\<open>main\<close> that follows the call of \<^verbatim>\<open>readBaseline\<close>.\<close>

definition checkBaseline :: "host \<Rightarrow> jsmap \<Rightarrow> dashSummaryEntry list \<Rightarrow> unit proc" where
  "checkBaseline h baseline restricted =
     (case reconcile baseline restricted of
        (unmatched, unhandled) \<Rightarrow>
          thenProc (reportUnmatched h baseline unmatched)
            (if length unhandled > 0
             then thenProc (print (error h (''Found results that aren'' @ [CHR 0x27] @ ''t part of the baseline!'')))
                    (thenProc (logRestrictedDashSummaryEntries h unhandled) (exit 1))
             else ret ()))"

subsection \<open>The main routine\<close>

text \<open>
  What one run finds in its environment: whether the files exist, what the two
  subprocesses return, whether the calls of the file system throw, the lines of the
  summary after the scanner has run, and the content of the baseline file.
\<close>

record world =
  jarExists :: bool
  mkdirFailure :: "jserror option"
  curlReturns :: spawnSyncReturns
  summaryExists :: bool
  renameFailure :: "jserror option"
  javaReturns :: spawnSyncReturns
  summaryLines :: "string list"
  summaryFailure :: "jserror option"
  baselineExists :: bool
  baselineJson :: "jserror + jsval"

text \<open>The arguments of the two commands.\<close>

definition curlArgs :: "host \<Rightarrow> string list" where
  "curlArgs h = [''-L'', dashLicensesUrl, ''-o'', dashLicensesJar h]"

definition javaArgs :: "host \<Rightarrow> string list" where
  "javaArgs h =
     [''-jar'', dashLicensesJar h, ''yarn.lock'', ''-batch'', ''50'', ''-timeout'', ''240'',
      ''-summary'', dashLicensesSummary h]"

text \<open>The first block of \<^verbatim>\<open>main\<close>: fetching the tool when it is missing.\<close>

definition fetch :: "host \<Rightarrow> world \<Rightarrow> unit proc" where
  "fetch h w =
     (if \<not> jarExists w
      then thenProc (print (info h ''Fetching dash-licenses...''))
            (thenProc (hostCall (mkdirFailure w))
            (bindProc (spawn ''curl'' (curlArgs h) (curlReturns w))
              (\<lambda>st. let curlError = getErrorFromStatus st
                    in if truthy (fieldValue curlError)
                       then thenProc (print (error h (fieldString curlError))) (exit 1)
                       else ret ())))
      else ret ())"

text \<open>The second block: the previous summary is renamed.\<close>

definition backup :: "host \<Rightarrow> world \<Rightarrow> unit proc" where
  "backup h w =
     (if summaryExists w
      then thenProc (print (info h ''Backing up previous summary...'')) (hostCall (renameFailure w))
      else ret ())"

text \<open>The third block: the scanner runs; its failure is a warning.\<close>

definition scan :: "host \<Rightarrow> world \<Rightarrow> unit proc" where
  "scan h w =
     thenProc (print (info h ''Running dash-licenses...''))
       (bindProc (spawn ''java'' (javaArgs h) (javaReturns w))
          (\<lambda>st. let dashError = getErrorFromStatus st
                in if truthy (fieldValue dashError)
                   then print (warn h (fieldString dashError))
                   else ret ()))"

text \<open>The rest of \<^verbatim>\<open>main\<close>, from the list of restricted dependencies on.\<close>

definition check :: "host \<Rightarrow> world \<Rightarrow> dashSummaryEntry list \<Rightarrow> unit proc" where
  "check h w restricted =
     thenProc
       (if length restricted > 0
        then if baselineExists w
             then thenProc (print (info h ''Checking results against the baseline...''))
                    (bindProc (readBaseline h (baselineJson w))
                       (\<lambda>baseline. checkBaseline h baseline restricted))
             else thenProc (print (error h ''Found unhandled restricted dependencies!''))
                    (thenProc (logRestrictedDashSummaryEntries h restricted) (exit 1))
        else ret ())
       (thenProc (print (info h ''Done.'')) (exit 0))"

definition main :: "host \<Rightarrow> world \<Rightarrow> unit proc" where
  "main h w =
     thenProc (fetch h w)
       (thenProc (backup h w)
         (thenProc (scan h w)
           (bindProc
              (fromResult (getRestrictedDependenciesFromSummary h (summaryLines w) (summaryFailure w)))
              (check h w))))"

text \<open>
  The script: \<^verbatim>\<open>main().catch(error => { console.error(error); process.exit(1); })\<close>.
  The result is what was printed and the exit code of the process.
\<close>

definition script :: "host \<Rightarrow> world \<Rightarrow> console list \<times> int" where
  "script h w =
     (case main h w of
        (out, Throw e) \<Rightarrow> (out @ [ConsoleError [ErrorObject e]], 1)
      | (out, Exit code) \<Rightarrow> (out, code)
      | (out, Normal _) \<Rightarrow> (out, 0))"

section \<open>The reconciliation on a heap\<close>

text \<open>
  The arrays, maps and sets of the script are objects that its statements could change in
  place. To say which objects the reconciliation changes, the same statements are
  modelled on a heap: a list of objects, a reference being an index. \<^verbatim>\<open>new\<close> and the
  array that \<^verbatim>\<open>filter\<close> returns are allocated at the end. \<^term>\<open>None\<close> is the
  \<^verbatim>\<open>TypeError\<close> of a method called on an object of another class.
\<close>

datatype object = ArrayObject "dashSummaryEntry list" | MapObject jsmap | SetObject jsset

type_synonym heap = "object list"

definition alloc :: "heap \<Rightarrow> object \<Rightarrow> heap \<times> nat" where
  "alloc hp ob = (hp @ [ob], length hp)"

text \<open>
  The callback of \<^verbatim>\<open>filter\<close>, called on each entry in turn: \<^verbatim>\<open>unmatched.delete\<close>
  writes the set at \<open>unmatchedRef\<close>, \<^verbatim>\<open>baseline.has\<close> reads the map at \<open>baselineRef\<close>.
\<close>

fun filterOnHeap ::
  "heap \<Rightarrow> nat \<Rightarrow> nat \<Rightarrow> dashSummaryEntry list \<Rightarrow> (heap \<times> dashSummaryEntry list) option" where
  "filterOnHeap hp baselineRef unmatchedRef [] = Some (hp, [])"
| "filterOnHeap hp baselineRef unmatchedRef (entry # entries) =
     (case elementAt hp unmatchedRef of
        Some (SetObject s) \<Rightarrow>
          (let hp' = hp[unmatchedRef := SetObject (setDelete s (fieldKey (dependency entry)))]
           in case elementAt hp' baselineRef of
                Some (MapObject m) \<Rightarrow>
                  (let keep = \<not> mapHas m (fieldKey (dependency entry))
                   in case filterOnHeap hp' baselineRef unmatchedRef entries of
                        None \<Rightarrow> None
                      | Some (hp'', unhandled) \<Rightarrow>
                          Some (hp'', if keep then entry # unhandled else unhandled))
              | _ \<Rightarrow> None)
      | _ \<Rightarrow> None)"

text \<open>
  The two statements of \<^verbatim>\<open>main\<close> that define \<^verbatim>\<open>unmatched\<close> and \<^verbatim>\<open>unhandled\<close>. The
  result is the heap afterwards and the references of the two new objects.
\<close>

definition reconcileOnHeap :: "heap \<Rightarrow> nat \<Rightarrow> nat \<Rightarrow> (heap \<times> nat \<times> nat) option" where
  "reconcileOnHeap hp restrictedRef baselineRef =
     (case elementAt hp baselineRef of
        Some (MapObject m) \<Rightarrow>
          (case alloc hp (SetObject (newSet (mapKeys m))) of
             (hp1, unmatchedRef) \<Rightarrow>
               (case elementAt hp1 restrictedRef of
                  Some (ArrayObject restricted) \<Rightarrow>
                    (case filterOnHeap hp1 baselineRef unmatchedRef restricted of
                       None \<Rightarrow> None
                     | Some (hp2, unhandled) \<Rightarrow>
                         (case alloc hp2 (ArrayObject unhandled) of
                            (hp3, unhandledRef) \<Rightarrow> Some (hp3, unmatchedRef, unhandledRef)))
                | _ \<Rightarrow> None))
      | _ \<Rightarrow> None)"

section \<open>An example host\<close>

text \<open>
  A host to run the script on concrete inputs: its lowercasing changes the letters
  \<open>A\<close> to \<open>Z\<close> only, its comparison is the order of the code units, and it
  converts a number to the decimal notation of its integer part.
\<close>

definition lowerChar :: "char \<Rightarrow> char" where
  "lowerChar c = (if CHR ''A'' \<le> c \<and> c \<le> CHR ''Z'' then char_of (of_char c + 32 :: nat) else c)"

definition codeUnitCompare :: "string \<Rightarrow> string \<Rightarrow> int" where
  "codeUnitCompare a b = (if a < b then - 1 else if a = b then 0 else 1)"

definition exampleNumberToString :: "jsnum \<Rightarrow> string" where
  "exampleNumberToString n =
     (case n of
        Finite q \<Rightarrow> intToString \<lfloor>q\<rfloor>
      | PosInfinity \<Rightarrow> ''Infinity''
      | NegInfinity \<Rightarrow> ''-Infinity'')"

definition exampleHost :: host where
  "exampleHost =
     \<lparr> NO_COLOR = True,
       dashLicensesJar = ''/theia/scripts/download/dash-licenses.jar'',
       dashLicensesSummary = ''/theia/license-check-summary.txt'',
       dashLicensesBaseline = ''/theia/license-check-baseline.json'',
       toLocaleLowerCase = map lowerChar,
       localeCompare = codeUnitCompare,
       numberToString = exampleNumberToString \<rparr>"

definition exited :: "int \<Rightarrow> spawnSyncReturns" where
  "exited code = \<lparr> spawn_error = None, spawn_status = Some code, spawn_signal = None \<rparr>"

definition spawnFailure :: "jserror \<Rightarrow> spawnSyncReturns" where
  "spawnFailure e = \<lparr> spawn_error = Some e, spawn_status = None, spawn_signal = None \<rparr>"

definition killed :: "string \<Rightarrow> spawnSyncReturns" where
  "killed s = \<lparr> spawn_error = None, spawn_status = None, spawn_signal = Some s \<rparr>"

text \<open>
  A run in which the tool is there, no previous summary exists, the scanner exits with
  the given code and writes the given lines, and the baseline file is as given.
\<close>

definition exampleWorld :: "int \<Rightarrow> string list \<Rightarrow> bool \<Rightarrow> jserror + jsval \<Rightarrow> world" where
  "exampleWorld code lines exists json =
     \<lparr> jarExists = True, mkdirFailure = None, curlReturns = exited 0,
       summaryExists = False, renameFailure = None, javaReturns = exited code,
       summaryLines = lines, summaryFailure = None,
       baselineExists = exists, baselineJson = json \<rparr>"

section \<open>Sequencing\<close>

lemma bindProc_Normal: "bindProc (out, Normal x) f = (out @ fst (f x), snd (f x))"
  by (simp add: bindProc_def split: prod.splits)

lemma bindProc_Exit: "bindProc (out, Exit c) f = (out, Exit c)"
  by (simp add: bindProc_def)

lemma bindProc_Throw: "bindProc (out, Throw e) f = (out, Throw e)"
  by (simp add: bindProc_def)

lemma thenProc_Normal: "thenProc (out, Normal x) k = (out @ fst k, snd k)"
  by (simp add: thenProc_def bindProc_Normal)

lemma thenProc_Exit: "thenProc (out, Exit c) k = (out, Exit c)"
  by (simp add: thenProc_def bindProc_Exit)

lemma thenProc_Throw: "thenProc (out, Throw e) k = (out, Throw e)"
  by (simp add: thenProc_def bindProc_Throw)

section \<open>Properties of the parser\<close>

lemma splitFrom_not_Nil: "splitFrom sep cur s \<noteq> []"
  by (induction sep cur s rule: splitFrom.induct) auto

lemma joinWith_Cons: "ys \<noteq> [] \<Longrightarrow> joinWith sep (x # ys) = x @ sep @ joinWith sep ys"
  by (cases ys) auto

lemma joinWith_splitFrom: "sep \<noteq> [] \<Longrightarrow> joinWith sep (splitFrom sep cur s) = rev cur @ s"
proof (induction sep cur s rule: splitFrom.induct)
  case (1 sep cur)
  then show ?case by simp
next
  case (2 sep cur c cs)
  show ?case
  proof (cases "take (length sep) (c # cs) = sep")
    case True
    with 2 have "joinWith sep (splitFrom sep [] (drop (length sep) (c # cs))) = drop (length sep) (c # cs)"
      by simp
    moreover have "sep @ drop (length sep) (c # cs) = c # cs"
      using True append_take_drop_id [of "length sep" "c # cs"] by simp
    ultimately show ?thesis
      using True 2(3) by (simp add: joinWith_Cons splitFrom_not_Nil del: joinWith.simps)
  next
    case False
    with 2 show ?thesis by simp
  qed
qed

lemma splitFrom_fields_free:
  assumes "sep \<noteq> []"
    and "\<And>u v. rev cur @ s = u @ sep @ v \<Longrightarrow> length cur \<le> length u"
    and "f \<in> set (splitFrom sep cur s)"
  shows "f \<noteq> u @ sep @ v"
  using assms
proof (induction sep cur s arbitrary: u v rule: splitFrom.induct)
  case (1 sep cur)
  then have f: "f = rev cur" by simp
  show ?case
  proof
    assume "f = u @ sep @ v"
    with f have "rev cur @ [] = u @ sep @ v" by simp
    from 1(2) [OF this] have "length cur \<le> length u" .
    moreover have "length cur = length u + length sep + length v"
      using \<open>f = u @ sep @ v\<close> f by (metis length_append length_rev add.assoc)
    ultimately show False using 1(1) by simp
  qed
next
  case (2 sep cur c cs)
  show ?case
  proof (cases "take (length sep) (c # cs) = sep")
    case True
    from 2(5) True 2(3) have "f = rev cur \<or> f \<in> set (splitFrom sep [] (drop (length sep) (c # cs)))"
      by simp
    then show ?thesis
    proof
      assume f: "f = rev cur"
      show ?thesis
      proof
        assume "f = u @ sep @ v"
        with f have "rev cur @ c # cs = u @ sep @ (v @ c # cs)" by simp
        from 2(4) [OF this] have "length cur \<le> length u" .
        moreover have "length cur = length u + length sep + length v"
          using \<open>f = u @ sep @ v\<close> f by (metis length_append length_rev add.assoc)
        ultimately show False using 2(3) by simp
      qed
    next
      assume "f \<in> set (splitFrom sep [] (drop (length sep) (c # cs)))"
      then show ?thesis
        using 2(1) True 2(3) by auto
    qed
  next
    case False
    have inv: "length (c # cur) \<le> length u'" if eq: "rev (c # cur) @ cs = u' @ sep @ v'" for u' v'
    proof -
      from eq have eq': "rev cur @ c # cs = u' @ sep @ v'" by simp
      from 2(4) [OF eq'] have le: "length cur \<le> length u'" .
      have "length u' \<noteq> length cur"
      proof
        assume len: "length u' = length cur"
        with eq' have "c # cs = sep @ v'"
          by (metis append_eq_append_conv length_rev)
        then have "take (length sep) (c # cs) = sep" by simp
        with False show False by simp
      qed
      with le show ?thesis by simp
    qed
    from 2(5) False have mem: "f \<in> set (splitFrom sep (c # cur) cs)" by simp
    show ?thesis
    proof (rule 2(2))
      show "\<not> (sep \<noteq> [] \<and> take (length sep) (c # cs) = sep)" using False by simp
      show "sep \<noteq> []" by fact
      show "\<And>u v. rev (c # cur) @ cs = u @ sep @ v \<Longrightarrow> length (c # cur) \<le> length u" by (rule inv)
      show "f \<in> set (splitFrom sep (c # cur) cs)" by (rule mem)
    qed
  qed
qed

lemma split_not_Nil: "sep \<noteq> [] \<Longrightarrow> split sep s \<noteq> []"
  by (simp add: split_def splitFrom_not_Nil)

lemma joinWith_split: "sep \<noteq> [] \<Longrightarrow> joinWith sep (split sep s) = s"
  by (simp add: split_def joinWith_splitFrom)

lemma split_fields_free: "sep \<noteq> [] \<Longrightarrow> f \<in> set (split sep s) \<Longrightarrow> f \<noteq> u @ sep @ v"
  using splitFrom_fields_free [of sep "[]" s f u v] by (simp add: split_def)

section \<open>Properties of the classifier\<close>

lemma collectRestricted_defined:
  "\<forall>e\<in>set es. status e \<noteq> None \<Longrightarrow>
   collectRestricted h acc es =
     Inr (acc @ filter (\<lambda>e. map_option (toLocaleLowerCase h) (status e) = Some ''restricted'') es)"
  by (induction es arbitrary: acc) (auto split: option.splits)

lemma collectRestricted_undefined:
  "\<exists>e\<in>set es. status e = None \<Longrightarrow> collectRestricted h acc es = Inl TypeError"
  by (induction es arbitrary: acc) (auto split: option.splits)

lemma compareDependency_defined:
  "dependency a = Some x \<Longrightarrow> dependency b = Some y \<Longrightarrow>
   compareDependency h a b = Inr (localeCompare h x y)"
  by (simp add: compareDependency_def fieldString_def)

lemma insertSorted_defined:
  assumes "\<forall>e\<in>set (x # ys). dependency e \<noteq> None"
  shows "\<exists>zs. insertSorted (compareDependency h) x ys = Inr zs \<and> mset zs = mset (x # ys) \<and>
           (consistentComparator (localeCompare h) \<longrightarrow> sorted_wrt (dependencyOrder h) ys \<longrightarrow>
              sorted_wrt (dependencyOrder h) zs)"
  using assms
proof (induction ys)
  case Nil
  then show ?case by simp
next
  case (Cons y ys)
  from Cons.prems obtain dx dy where dx: "dependency x = Some dx" and dy: "dependency y = Some dy"
    by auto
  have cmp: "compareDependency h x y = Inr (localeCompare h dx dy)"
    by (rule compareDependency_defined [OF dx dy])
  show ?case
  proof (cases "localeCompare h dx dy \<le> 0")
    case True
    have "sorted_wrt (dependencyOrder h) (x # y # ys)"
      if c: "consistentComparator (localeCompare h)" and s: "sorted_wrt (dependencyOrder h) (y # ys)"
    proof -
      have xy: "dependencyOrder h x y" using True dx dy by (simp add: dependencyOrder_def)
      have "dependencyOrder h x z" if "z \<in> set ys" for z
      proof -
        from s that have yz: "dependencyOrder h y z" by simp
        then obtain dz where dz: "dependency z = Some dz"
          by (auto simp: dependencyOrder_def split: option.splits)
        with yz dy have "localeCompare h dy dz \<le> 0" by (simp add: dependencyOrder_def)
        with True c have "localeCompare h dx dz \<le> 0"
          unfolding consistentComparator_def by blast
        with dx dz show ?thesis by (simp add: dependencyOrder_def)
      qed
      with xy s show ?thesis by simp
    qed
    with True cmp show ?thesis by simp
  next
    case False
    from Cons.prems have "\<forall>e\<in>set (x # ys). dependency e \<noteq> None" by simp
    from Cons.IH [OF this] obtain zs where
      zs: "insertSorted (compareDependency h) x ys = Inr zs"
      and m: "mset zs = mset (x # ys)"
      and srt: "consistentComparator (localeCompare h) \<longrightarrow> sorted_wrt (dependencyOrder h) ys \<longrightarrow>
              sorted_wrt (dependencyOrder h) zs"
      by blast
    have "sorted_wrt (dependencyOrder h) (y # zs)"
      if c: "consistentComparator (localeCompare h)" and s: "sorted_wrt (dependencyOrder h) (y # ys)"
    proof -
      from c False have "localeCompare h dy dx \<le> 0"
        unfolding consistentComparator_def by blast
      then have yx: "dependencyOrder h y x" using dx dy by (simp add: dependencyOrder_def)
      have "set zs = insert x (set ys)" using m by (metis mset_eq_setD list.simps(15))
      with yx s have "\<forall>z\<in>set zs. dependencyOrder h y z" by auto
      moreover from srt c s have "sorted_wrt (dependencyOrder h) zs" by simp
      ultimately show ?thesis by simp
    qed
    with False cmp zs m show ?thesis by simp
  qed
qed

lemma sortBy_defined:
  assumes "\<forall>e\<in>set xs. dependency e \<noteq> None"
  shows "\<exists>ys. sortBy (compareDependency h) xs = Inr ys \<and> mset ys = mset xs \<and>
           (consistentComparator (localeCompare h) \<longrightarrow> sorted_wrt (dependencyOrder h) ys)"
  using assms
proof (induction xs)
  case Nil
  then show ?case by simp
next
  case (Cons x xs)
  then obtain ys where ys: "sortBy (compareDependency h) xs = Inr ys" and m: "mset ys = mset xs"
    and srt: "consistentComparator (localeCompare h) \<longrightarrow> sorted_wrt (dependencyOrder h) ys"
    by auto
  from m have "set ys = set xs" by (rule mset_eq_setD)
  with Cons.prems have "\<forall>e\<in>set (x # ys). dependency e \<noteq> None" by simp
  from insertSorted_defined [OF this, of h] obtain zs where
    "insertSorted (compareDependency h) x ys = Inr zs" "mset zs = mset (x # ys)"
    "consistentComparator (localeCompare h) \<longrightarrow> sorted_wrt (dependencyOrder h) ys \<longrightarrow>
              sorted_wrt (dependencyOrder h) zs"
    by blast
  with ys m srt show ?case by simp
qed

lemma elementAt_0: "xs \<noteq> [] \<Longrightarrow> elementAt xs 0 = Some (hd xs)"
  by (cases xs) (simp_all add: elementAt_def)

lemma dependency_readSummaryLine: "dependency (readSummaryLine line) = Some (hd (split '', '' line))"
  by (simp add: readSummaryLine_def Let_def elementAt_0 split_not_Nil)

lemma status_readSummaryLine:
  "status (readSummaryLine line) = elementAt (split '', '' line) 2"
  by (simp add: readSummaryLine_def Let_def)

lemma status_None_iff: "status (readSummaryLine line) = None \<longleftrightarrow> length (split '', '' line) < 3"
  by (auto simp add: readSummaryLine_def Let_def elementAt_def)

lemma status_Some_iff:
  "(\<exists>s. status (readSummaryLine line) = Some s) \<longleftrightarrow> 3 \<le> length (split '', '' line)"
  by (auto simp add: readSummaryLine_def Let_def elementAt_def)

lemma consistent_codeUnitCompare: "consistentComparator codeUnitCompare"
  unfolding consistentComparator_def codeUnitCompare_def
  by (auto split: if_splits)

lemma getRestricted_defined:
  assumes "\<forall>line\<in>set lines. 3 \<le> length (split '', '' line)"
  shows "\<exists>restricted. getRestrictedDependenciesFromSummary h lines None = Inr restricted \<and>
           mset restricted =
             mset (filter (\<lambda>e. map_option (toLocaleLowerCase h) (status e) = Some ''restricted'')
                     (readSummaryLines lines)) \<and>
           (consistentComparator (localeCompare h) \<longrightarrow> sorted_wrt (dependencyOrder h) restricted)"
proof -
  let ?entries = "readSummaryLines lines"
  let ?kept = "filter (\<lambda>e. map_option (toLocaleLowerCase h) (status e) = Some ''restricted'') ?entries"
  from assms have "\<forall>e\<in>set ?entries. status e \<noteq> None"
    by (simp add: readSummaryLines_def status_Some_iff)
  then have collect: "collectRestricted h [] ?entries = Inr ?kept"
    by (simp add: collectRestricted_defined)
  have "\<forall>e\<in>set ?kept. dependency e \<noteq> None"
    by (auto simp: readSummaryLines_def dependency_readSummaryLine)
  from sortBy_defined [OF this, of h] collect show ?thesis
    by (simp add: getRestrictedDependenciesFromSummary_def getRestrictedDependencies_def)
qed

lemma getRestricted_undefined:
  assumes "\<exists>line\<in>set lines. length (split '', '' line) < 3"
  shows "getRestrictedDependenciesFromSummary h lines failure = Inl TypeError"
proof -
  from assms have "\<exists>e\<in>set (readSummaryLines lines). status e = None"
    by (simp add: readSummaryLines_def status_None_iff)
  then show ?thesis
    by (simp add: getRestrictedDependenciesFromSummary_def getRestrictedDependencies_def
        collectRestricted_undefined)
qed

section \<open>Properties of the subprocess calls and of the main routine\<close>

lemma spawn_failed:
  "spawn_error r = Some e \<Longrightarrow> spawn b as r = ([ConsoleError [ErrorObject e]], Exit 1)"
  by (simp add: spawn_def spawned_def Let_def spawnSyncReturns.defs thenProc_def bindProc_def
      print_def exit_def)

lemma spawn_started:
  "spawn_error r = None \<Longrightarrow> spawn b as r = ([], Normal (spawned b as r))"
  by (simp add: spawn_def spawned_def Let_def spawnSyncReturns.defs ret_def)

lemma spawned_fields:
  "spawn_signal (spawned b as r) = spawn_signal r"
  "spawn_status (spawned b as r) = spawn_status r"
  "spawn_error (spawned b as r) = spawn_error r"
  "bin (spawned b as r) = b"
  "args (spawned b as r) = as"
  by (simp_all add: spawned_def spawnSyncReturns.defs)

lemma getErrorFromStatus_None:
  "getErrorFromStatus st = None \<longleftrightarrow> spawn_signal st = None \<and> spawn_status st = Some 0"
  by (auto simp: getErrorFromStatus_def split: option.splits)

lemma getErrorFromStatus_truthy:
  "truthy (fieldValue (getErrorFromStatus st)) \<longleftrightarrow> getErrorFromStatus st \<noteq> None"
  by (auto simp: getErrorFromStatus_def truthy_def fieldValue_def split: option.splits)

lemma fieldString_Some: "fieldString (Some m) = m"
  by (simp add: fieldString_def)

lemma main_reaches_summary:
  assumes "snd (fetch h w) = Normal ()" and "snd (backup h w) = Normal ()"
    and "snd (scan h w) = Normal ()"
  shows "main h w =
     (fst (fetch h w) @ fst (backup h w) @ fst (scan h w)
        @ fst (bindProc (fromResult (getRestrictedDependenciesFromSummary h (summaryLines w) (summaryFailure w))) (check h w)),
      snd (bindProc (fromResult (getRestrictedDependenciesFromSummary h (summaryLines w) (summaryFailure w))) (check h w)))"
proof -
  from assms obtain o1 o2 o3 where "fetch h w = (o1, Normal ())" "backup h w = (o2, Normal ())"
    "scan h w = (o3, Normal ())"
    by (metis prod.collapse)
  then show ?thesis
    by (simp add: main_def thenProc_Normal)
qed

lemma scan_started:
  assumes "spawn_error (javaReturns w) = None"
  shows "scan h w =
     (info h ''Running dash-licenses...''
        # (case getErrorFromStatus (spawned ''java'' (javaArgs h) (javaReturns w)) of
             None \<Rightarrow> []
           | Some m \<Rightarrow> [warn h m]),
      Normal ())"
proof (cases "getErrorFromStatus (spawned ''java'' (javaArgs h) (javaReturns w))")
  case None
  with assms show ?thesis
    by (simp add: scan_def spawn_started print_def ret_def thenProc_Normal bindProc_Normal
        getErrorFromStatus_truthy)
next
  case (Some m)
  with assms show ?thesis
    by (simp add: scan_def spawn_started print_def ret_def thenProc_Normal bindProc_Normal
        getErrorFromStatus_truthy fieldString_Some)
qed

lemma scan_failed:
  assumes "spawn_error (javaReturns w) = Some e"
  shows "scan h w = ([info h ''Running dash-licenses...'', ConsoleError [ErrorObject e]], Exit 1)"
  using assms
  by (simp add: scan_def spawn_failed print_def thenProc_Normal bindProc_Exit)

lemma fetch_present: "jarExists w \<Longrightarrow> fetch h w = ([], Normal ())"
  by (simp add: fetch_def ret_def)

lemma fetch_spawn_failed:
  assumes "\<not> jarExists w" and "mkdirFailure w = None" and "spawn_error (curlReturns w) = Some e"
  shows "fetch h w = ([info h ''Fetching dash-licenses...'', ConsoleError [ErrorObject e]], Exit 1)"
  using assms
  by (simp add: fetch_def spawn_failed print_def hostCall_def ret_def thenProc_Normal bindProc_Exit)

lemma fetch_download_failed:
  assumes "\<not> jarExists w" and "mkdirFailure w = None" and "spawn_error (curlReturns w) = None"
    and "getErrorFromStatus (spawned ''curl'' (curlArgs h) (curlReturns w)) = Some m"
  shows "fetch h w = ([info h ''Fetching dash-licenses...'', error h m], Exit 1)"
  using assms
  by (simp add: fetch_def spawn_started print_def hostCall_def ret_def exit_def thenProc_Normal
      bindProc_Normal getErrorFromStatus_truthy fieldString_Some)

lemma fetch_downloaded:
  assumes "\<not> jarExists w" and "mkdirFailure w = None" and "spawn_error (curlReturns w) = None"
    and "getErrorFromStatus (spawned ''curl'' (curlArgs h) (curlReturns w)) = None"
  shows "fetch h w = ([info h ''Fetching dash-licenses...''], Normal ())"
  using assms
  by (simp add: fetch_def spawn_started print_def hostCall_def ret_def exit_def thenProc_Normal
      bindProc_Normal getErrorFromStatus_truthy)

lemma script_fetch_exit:
  "fetch h w = (out, Exit code) \<Longrightarrow> script h w = (out, code)"
  by (simp add: script_def main_def thenProc_Exit)

lemma script_scan_exit:
  assumes "snd (fetch h w) = Normal ()" and "snd (backup h w) = Normal ()"
    and "scan h w = (out, Exit code)"
  shows "script h w = (fst (fetch h w) @ fst (backup h w) @ out, code)"
proof -
  from assms obtain o1 o2 where "fetch h w = (o1, Normal ())" "backup h w = (o2, Normal ())"
    by (metis prod.collapse)
  with assms(3) show ?thesis
    by (simp add: script_def main_def thenProc_Normal thenProc_Exit)
qed

lemma restrictedLine_defined:
  "dependency e = Some d \<Longrightarrow> license e = Some l \<Longrightarrow>
   restrictedLine h e = ConsoleLog [Text (red h (''X '' @ d @ '', '' @ l))]"
  by (simp add: restrictedLine_def fieldString_def)

lemma check_empty: "check h w [] = ([info h ''Done.''], Exit 0)"
  by (simp add: check_def ret_def print_def exit_def thenProc_Normal)

lemma check_no_baseline:
  assumes "\<not> baselineExists w" and "restricted \<noteq> []"
  shows "check h w restricted =
     (error h ''Found unhandled restricted dependencies!'' # map (restrictedLine h) restricted, Exit 1)"
  using assms
  by (simp add: check_def logRestrictedDashSummaryEntries_def printAll_def print_def exit_def
      thenProc_Normal thenProc_Exit)

lemma script_reaches_check:
  assumes "snd (fetch h w) = Normal ()" and "snd (backup h w) = Normal ()"
    and "snd (scan h w) = Normal ()"
    and "getRestrictedDependenciesFromSummary h (summaryLines w) (summaryFailure w) = Inr restricted"
    and "check h w restricted = (out, Exit code)"
  shows "script h w = (fst (fetch h w) @ fst (backup h w) @ fst (scan h w) @ out, code)"
  using assms(4,5)
  by (simp add: script_def main_reaches_summary [OF assms(1,2,3)] fromResult_def ret_def
      bindProc_Normal)

lemma script_classifier_throws:
  assumes "snd (fetch h w) = Normal ()" and "snd (backup h w) = Normal ()"
    and "snd (scan h w) = Normal ()"
    and "getRestrictedDependenciesFromSummary h (summaryLines w) (summaryFailure w) = Inl e"
  shows "script h w =
     (fst (fetch h w) @ fst (backup h w) @ fst (scan h w) @ [ConsoleError [ErrorObject e]], 1)"
  using assms(4)
  by (simp add: script_def main_reaches_summary [OF assms(1,2,3)] fromResult_def throw_def
      bindProc_Throw)

lemma stages_ignore_baseline:
  "fetch h (w\<lparr>baselineExists := b, baselineJson := j\<rparr>) = fetch h w"
  "backup h (w\<lparr>baselineExists := b, baselineJson := j\<rparr>) = backup h w"
  "scan h (w\<lparr>baselineExists := b, baselineJson := j\<rparr>) = scan h w"
  by (simp_all add: fetch_def backup_def scan_def)

lemma script_exit_code: "snd (main h w) = Exit code \<Longrightarrow> snd (script h w) = code"
  by (cases "main h w") (simp add: script_def)

section \<open>Properties of the example host\<close>

lemma info_example: "info exampleHost text = ConsoleWarn [Text (''INFO: '' @ text)]"
  by (simp add: info_def cyan_def style_def exampleHost_def)

lemma error_example: "error exampleHost text = ConsoleError [Text (''ERROR: '' @ text)]"
  by (simp add: error_def red_def style_def exampleHost_def)

lemma example_stages:
  "fetch h (exampleWorld code lines exists json) = ([], Normal ())"
  "backup h (exampleWorld code lines exists json) = ([], Normal ())"
  "scan h (exampleWorld 0 lines exists json) = ([info h ''Running dash-licenses...''], Normal ())"
  by (simp_all add: exampleWorld_def fetch_def backup_def ret_def scan_started exited_def
      getErrorFromStatus_def spawned_fields)

lemma example_summary:
  "summaryLines (exampleWorld code lines exists json) = lines"
  "summaryFailure (exampleWorld code lines exists json) = None"
  "baselineExists (exampleWorld code lines exists json) = exists"
  "baselineJson (exampleWorld code lines exists json) = json"
  by (simp_all add: exampleWorld_def)

lemma localeCompare_example: "localeCompare exampleHost = codeUnitCompare"
  by (simp add: exampleHost_def)

lemma fields_readSummaryLine:
  "license (readSummaryLine line) = elementAt (split '', '' line) 1"
  "status (readSummaryLine line) = elementAt (split '', '' line) 2"
  "source (readSummaryLine line) = elementAt (split '', '' line) 3"
  by (simp_all add: readSummaryLine_def Let_def)

lemma elementAt_None_iff: "elementAt xs i = None \<longleftrightarrow> length xs \<le> i"
  by (auto simp: elementAt_def)

section \<open>Properties of maps and sets\<close>

lemma set_foldl_setAdd: "set (foldl setAdd acc ks) = set acc \<union> set ks"
  by (induction ks arbitrary: acc) (auto simp: setAdd_def)

lemma distinct_foldl_setAdd: "distinct acc \<Longrightarrow> distinct (foldl setAdd acc ks)"
  by (induction ks arbitrary: acc) (auto simp: setAdd_def)


lemma set_newSet: "set (newSet ks) = set ks"
  by (simp add: newSet_def set_foldl_setAdd)

lemma distinct_newSet: "distinct (newSet ks)"
  by (simp add: newSet_def distinct_foldl_setAdd)


lemma map_fst_replace:
  "map fst (map (\<lambda>(k', v'). if k' = k then (k', v) else (k', v')) m) = map fst m"
  by (induction m) (simp_all split: prod.split)

lemma mapKeys_mapSet: "mapKeys (mapSet m k v) = setAdd (mapKeys m) k"
proof (cases "k \<in> set (map fst m)")
  case True
  then show ?thesis
    unfolding mapSet_def mapKeys_def mapHas_def setAdd_def
    by (simp only: map_fst_replace if_True)
next
  case False
  then show ?thesis
    unfolding mapSet_def mapKeys_def mapHas_def setAdd_def
    by (simp only: if_False map_append list.map fst_conv)
qed

lemma map_of_replace_same:
  "k \<in> set (map fst m) \<Longrightarrow>
   map_of (map (\<lambda>(k', v'). if k' = k then (k', v) else (k', v')) m) k = Some v"
  by (induction m) (simp_all split: prod.split, fastforce)

lemma map_of_replace_other:
  "x \<noteq> k \<Longrightarrow>
   map_of (map (\<lambda>(k', v'). if k' = k then (k', v) else (k', v')) m) x = map_of m x"
  by (induction m) (simp_all split: prod.split)

lemma map_of_mapSet: "map_of (mapSet m k v) = (map_of m)(k \<mapsto> v)"
proof (cases "mapHas m k")
  case True
  have "map_of (mapSet m k v) x = ((map_of m)(k \<mapsto> v)) x" for x
  proof (cases "x = k")
    case True
    with \<open>mapHas m k\<close> show ?thesis
      by (simp add: mapSet_def mapHas_def map_of_replace_same)
  next
    case False
    with \<open>mapHas m k\<close> show ?thesis
      by (simp add: mapSet_def mapHas_def map_of_replace_other)
  qed
  then show ?thesis by (rule ext)
next
  case False
  then have "map_of m k = None" by (simp add: mapHas_def map_of_eq_None_iff)
  with False show ?thesis
    by (auto simp: mapSet_def map_add_def fun_eq_iff split: option.splits)
qed

lemma mapKeys_foldl_mapSet:
  "mapKeys (foldl (\<lambda>m (k, v). mapSet m k v) acc pairs) = foldl setAdd (mapKeys acc) (map fst pairs)"
  by (induction pairs arbitrary: acc) (auto simp: mapKeys_mapSet)

lemma map_of_foldl_mapSet:
  "map_of (foldl (\<lambda>m (k, v). mapSet m k v) acc pairs) = map_of acc ++ map_of (rev pairs)"
proof (induction pairs arbitrary: acc)
  case Nil
  then show ?case by simp
next
  case (Cons p pairs)
  obtain k v where p: "p = (k, v)" by (cases p)
  have "map_of (foldl (\<lambda>m (k, v). mapSet m k v) acc (p # pairs)) =
        map_of (mapSet acc k v) ++ map_of (rev pairs)"
    using Cons.IH p by simp
  also have "\<dots> = (map_of acc)(k \<mapsto> v) ++ map_of (rev pairs)"
    by (simp only: map_of_mapSet)
  also have "\<dots> = map_of acc ++ ([k \<mapsto> v] ++ map_of (rev pairs))"
    by (auto simp: map_add_def fun_eq_iff split: option.splits)
  also have "\<dots> = map_of acc ++ map_of (rev (p # pairs))"
    using p by simp
  finally show ?case .
qed

lemma foldl_mapSet_distinct:
  "distinct (map fst (acc @ pairs)) \<Longrightarrow> foldl (\<lambda>m (k, v). mapSet m k v) acc pairs = acc @ pairs"
proof (induction pairs arbitrary: acc)
  case Nil
  then show ?case by simp
next
  case (Cons p pairs)
  obtain k v where p: "p = (k, v)" by (cases p)
  with Cons.prems have "mapSet acc k v = acc @ [(k, v)]"
    by (auto simp: mapSet_def mapHas_def)
  moreover from Cons.prems p have "distinct (map fst ((acc @ [(k, v)]) @ pairs))" by simp
  ultimately show ?case using Cons.IH [of "acc @ [(k, v)]"] p by simp
qed

lemma mapKeys_newMap: "mapKeys (newMap pairs) = newSet (map fst pairs)"
  using mapKeys_foldl_mapSet [of "[]" pairs] by (simp add: newMap_def newSet_def mapKeys_def)

lemma map_of_newMap: "map_of (newMap pairs) = map_of (rev pairs)"
  by (simp add: newMap_def map_of_foldl_mapSet)

lemma newMap_distinct: "distinct (map fst pairs) \<Longrightarrow> newMap pairs = pairs"
  using foldl_mapSet_distinct [of "[]" pairs] by (simp add: newMap_def)

lemma mapGet_newMap:
  "mapGet (newMap pairs) k = (case map_of (rev pairs) k of None \<Rightarrow> Undefined | Some v \<Rightarrow> v)"
  by (simp add: mapGet_def map_of_newMap)


section \<open>Properties of the reconciliation and of the loader\<close>


lemma toString_examples:
  "toString exampleHost (Arr [Str ''a'', Null, Num (Finite 12), Arr [Bool True, Obj []]]) =
     Inr ''a,,12,true,[object Object]''"
  "toString exampleHost (Arr []) = Inr []"
  "toString exampleHost (Arr [Str ''x'', Obj [(''toString'', Null)]]) = Inl TypeError"
  by code_simp+

lemma toString_throws_TypeError:
  "toString h v = Inl e \<Longrightarrow> e = TypeError"
  "elementStrings h vs = Inl e \<Longrightarrow> e = TypeError"
  by (induction h v and h vs rule: toString_elementStrings.induct)
     (auto split: sum.splits if_splits)

lemma reportKeys_converted:
  assumes "\<forall>k\<in>set ks. \<exists>name. toString h (keyValue k) = Inr name"
  shows "reportKeys h baseline ks = (concat (map (keyLines h baseline) ks), Normal ())"
  using assms
proof (induction ks)
  case Nil
  then show ?case by (simp add: ret_def)
next
  case (Cons k ks)
  then obtain name where "toString h (keyValue k) = Inr name" by auto
  with Cons show ?case
    by (simp add: keyLines_def printAll_def thenProc_Normal)
qed

lemma reportKeys_throws:
  assumes "\<forall>k\<in>set ks. \<exists>name. toString h (keyValue k) = Inr name"
    and "toString h (keyValue k) = Inl e"
  shows "reportKeys h baseline (ks @ k # rest) = (concat (map (keyLines h baseline) ks), Throw e)"
  using assms
proof (induction ks)
  case Nil
  then show ?case by (simp add: throw_def)
next
  case (Cons k' ks)
  then obtain name where "toString h (keyValue k') = Inr name" by auto
  with Cons show ?case
    by (simp add: keyLines_def printAll_def thenProc_Normal)
qed

lemma reportUnmatched_converted:
  assumes "\<forall>k\<in>set unmatched. \<exists>name. toString h (keyValue k) = Inr name"
  shows "reportUnmatched h baseline unmatched =
     (if unmatched = [] then []
      else warn h ''Some entries in the baseline did not match anything from dash-licenses output:''
           # concat (map (keyLines h baseline) unmatched),
      Normal ())"
  by (simp add: reportUnmatched_def reportKeys_converted [OF assms] ret_def print_def thenProc_Normal)

lemma reportUnmatched_throws:
  assumes "\<forall>k\<in>set ks. \<exists>name. toString h (keyValue k) = Inr name"
    and "toString h (keyValue k) = Inl e"
  shows "reportUnmatched h baseline (ks @ k # rest) =
     (warn h ''Some entries in the baseline did not match anything from dash-licenses output:''
        # concat (map (keyLines h baseline) ks),
      Throw e)"
  by (simp add: reportUnmatched_def reportKeys_throws [OF assms] print_def thenProc_Normal)

lemma first_failing_key:
  assumes "\<exists>k\<in>set unmatched. \<exists>e. toString h (keyValue k) = Inl e"
  shows "\<exists>ks k rest. unmatched = ks @ k # rest \<and>
           (\<forall>k'\<in>set ks. \<exists>name. toString h (keyValue k') = Inr name) \<and>
           toString h (keyValue k) = Inl TypeError"
proof -
  from assms obtain k0 e0 where "k0 \<in> set unmatched" "toString h (keyValue k0) = Inl e0"
    by blast
  then have "\<exists>k\<in>set unmatched. \<not> (\<exists>name. toString h (keyValue k) = Inr name)"
    by (intro bexI [of _ k0]) simp_all
  from split_list_first_prop [OF this] obtain ks k rest where
    u: "unmatched = ks @ k # rest" and k: "\<not> (\<exists>name. toString h (keyValue k) = Inr name)"
    and ks: "\<forall>k'\<in>set ks. \<not> \<not> (\<exists>name. toString h (keyValue k') = Inr name)"
    by blast
  from k obtain e where "toString h (keyValue k) = Inl e"
    by (cases "toString h (keyValue k)") auto
  with toString_throws_TypeError(1) have "toString h (keyValue k) = Inl TypeError" by blast
  with u ks show ?thesis by blast
qed

lemma reportUnmatched_some_key_throws:
  assumes "\<exists>k\<in>set unmatched. \<exists>e. toString h (keyValue k) = Inl e"
  shows "snd (reportUnmatched h baseline unmatched) = Throw TypeError"
proof -
  from first_failing_key [OF assms] obtain ks k rest where
    "unmatched = ks @ k # rest" "\<forall>k'\<in>set ks. \<exists>name. toString h (keyValue k') = Inr name"
    "toString h (keyValue k) = Inl TypeError"
    by blast
  then show ?thesis by (simp add: reportUnmatched_throws)
qed

lemma checkBaseline_eq:
  assumes "reconcile baseline restricted = (unmatched, unhandled)"
    and "\<forall>k\<in>set unmatched. \<exists>name. toString h (keyValue k) = Inr name"
  shows "checkBaseline h baseline restricted =
     (fst (reportUnmatched h baseline unmatched)
        @ (if unhandled = [] then []
           else error h (''Found results that aren'' @ [CHR 0x27] @ ''t part of the baseline!'')
                # map (restrictedLine h) unhandled),
      if unhandled = [] then Normal () else Exit 1)"
  using assms(1)
  by (simp add: checkBaseline_def reportUnmatched_converted [OF assms(2)]
      logRestrictedDashSummaryEntries_def printAll_def print_def exit_def ret_def thenProc_Normal
      thenProc_Exit)

lemma checkBaseline_throws:
  assumes "reconcile baseline restricted = (unmatched, unhandled)"
    and "reportUnmatched h baseline unmatched = (out, Throw e)"
  shows "checkBaseline h baseline restricted = (out, Throw e)"
  using assms by (simp add: checkBaseline_def thenProc_Throw)





lemma check_invalid_baseline:
  assumes "baselineExists w" and "restricted \<noteq> []"
    and "readBaseline h (baselineJson w) = (out, Exit code)"
  shows "check h w restricted =
     (info h ''Checking results against the baseline...'' # out, Exit code)"
  using assms
  by (simp add: check_def print_def thenProc_Normal bindProc_Exit thenProc_Exit)

lemma enumerate_strings:
  "map (\<lambda>(i, el). (toKey i el, Null)) (enumerate n (map Str names)) =
   map (\<lambda>s. (Primitive (Str s), Null)) names"
  by (induction names arbitrary: n) (simp_all add: toKey_def)

lemma readBaseline_array:
  "readBaseline h (Inr (Arr elements)) =
     ([], Normal (newMap (map (\<lambda>(i, el). (toKey i el, Null)) (enumerate 0 elements))))"
  by (simp add: readBaseline_def fromResult_def ret_def bindProc_Normal)

lemma readBaseline_object:
  "readBaseline h (Inr (Obj entries)) =
     ([], Normal (newMap (map (\<lambda>(k, v). (Primitive (Str k), v)) entries)))"
  by (simp add: readBaseline_def fromResult_def ret_def bindProc_Normal)

lemma readBaseline_other:
  assumes "\<forall>elements. json \<noteq> Arr elements" and "\<forall>entries. json \<noteq> Obj entries"
  shows "readBaseline h (Inr json) =
     ([ConsoleError [Text (''ERROR: Invalid format for '' @ [CHR 0x22] @ dashLicensesBaseline h
                           @ [CHR 0x22])]], Exit 1)"
  using assms
  by (cases json)
     (simp_all add: readBaseline_def fromResult_def ret_def print_def exit_def bindProc_Normal
        thenProc_Normal)

lemma map_of_string_keys:
  "map_of (map (\<lambda>(k, v). (Primitive (Str k), v)) entries) (Primitive (Str k)) = map_of entries k"
  by (induction entries) auto

lemma mapGet_null_values:
  assumes "k \<in> set (mapKeys (newMap (map (\<lambda>s. (Primitive (Str s), Null)) names)))"
  shows "mapGet (newMap (map (\<lambda>s. (Primitive (Str s), Null)) names)) k = Null"
proof -
  let ?pairs = "map (\<lambda>s. (Primitive (Str s), Null)) names"
  from assms have "k \<in> fst ` set ?pairs"
    by (simp add: mapKeys_newMap set_newSet image_image)
  then have "k \<in> fst ` set (rev ?pairs)" by (simp add: image_image)
  then obtain v where v: "map_of (rev ?pairs) k = Some v"
    by (metis map_of_eq_None_iff not_Some_eq)
  then have "(k, v) \<in> set (rev ?pairs)" by (rule map_of_SomeD)
  then have "v = Null" by auto
  with v show ?thesis by (simp add: mapGet_newMap)
qed

section \<open>Properties of the reconciliation on a heap\<close>

lemma elementAt_Some_iff: "elementAt xs i = Some x \<longleftrightarrow> i < length xs \<and> xs ! i = x"
  by (auto simp: elementAt_def)

lemma filterOnHeap_eq:
  assumes "elementAt hp u = Some (SetObject s)" and "elementAt hp b = Some (MapObject m)"
  shows "filterOnHeap hp b u entries =
     Some (hp[u := SetObject (fst (filterUnhandled m s entries))], snd (filterUnhandled m s entries))"
  using assms
proof (induction entries arbitrary: hp s)
  case Nil
  then have "hp[u := SetObject s] = hp"
    by (simp add: elementAt_Some_iff list_update_same_conv)
  then show ?case by simp
next
  case (Cons e entries)
  let ?s = "setDelete s (fieldKey (dependency e))"
  let ?hp = "hp[u := SetObject ?s]"
  from Cons.prems have neq: "b \<noteq> u" by auto
  from Cons.prems have u: "elementAt ?hp u = Some (SetObject ?s)"
    by (simp add: elementAt_Some_iff)
  from Cons.prems neq have b: "elementAt ?hp b = Some (MapObject m)"
    by (simp add: elementAt_Some_iff)
  from Cons.IH [OF u b] have
    "filterOnHeap ?hp b u entries =
       Some (hp[u := SetObject (fst (filterUnhandled m ?s entries))], snd (filterUnhandled m ?s entries))"
    by simp
  with Cons.prems(1) b show ?case
    by (simp add: Let_def split: prod.splits)
qed

lemma reconcileOnHeap_eq:
  assumes "elementAt hp r = Some (ArrayObject restricted)"
    and "elementAt hp b = Some (MapObject baseline)"
  shows "reconcileOnHeap hp r b =
     Some (hp @ [SetObject (fst (reconcile baseline restricted)),
                 ArrayObject (snd (reconcile baseline restricted))],
           length hp, Suc (length hp))"
proof -
  let ?hp1 = "hp @ [SetObject (newSet (mapKeys baseline))]"
  from assms have r: "elementAt ?hp1 r = Some (ArrayObject restricted)"
    and b: "elementAt ?hp1 b = Some (MapObject baseline)"
    by (simp_all add: elementAt_Some_iff nth_append)
  have u: "elementAt ?hp1 (length hp) = Some (SetObject (newSet (mapKeys baseline)))"
    by (simp add: elementAt_Some_iff)
  from filterOnHeap_eq [OF u b, of restricted]
  have "filterOnHeap ?hp1 b (length hp) restricted =
     Some (hp @ [SetObject (fst (reconcile baseline restricted))], snd (reconcile baseline restricted))"
    by (simp add: reconcile_def)
  with assms(2) r show ?thesis
    by (simp add: reconcileOnHeap_def alloc_def)
qed

section \<open>The claims\<close>




text \<open>
  C2, as amended: for every summary whose lines all have at least three fields (so that
  every parsed entry has a status), the classifier returns a list that holds exactly the
  parsed entries whose status, lowercased by the host, is the string \<open>restricted\<close>,
  each as often as it was read; and when the comparison of the host is consistent, the
  list is in ascending order of the dependencies. On the example host the status
  \<open>Restricted\<close> is kept and \<open>approved\<close> is not. The claim as stated fails on a
  sequence with an entry whose status is \<^verbatim>\<open>undefined\<close>: the classifier throws and
  returns no list at all, although another entry is restricted.
\<close>

theorem classifier_keeps_restricted_sorted:
  assumes "\<forall>line\<in>set lines. 3 \<le> length (split '', '' line)"
  shows "\<exists>restricted.
           getRestrictedDependenciesFromSummary h lines None = Inr restricted \<and>
           mset restricted =
             mset (filter (\<lambda>e. map_option (toLocaleLowerCase h) (status e) = Some ''restricted'')
                     (readSummaryLines lines)) \<and>
           (consistentComparator (localeCompare h) \<longrightarrow> sorted_wrt (dependencyOrder h) restricted)"
  using assms by (rule getRestricted_defined)

theorem classifier_keeps_restricted_sorted_witness:
  "3 \<le> length (split '', '' ''B, lic, Restricted, src'') \<and>
   3 \<le> length (split '', '' ''A, lic, restricted, src'') \<and>
   3 \<le> length (split '', '' ''C, lic, approved, src'') \<and>
   consistentComparator (localeCompare exampleHost) \<and>
   getRestrictedDependenciesFromSummary exampleHost
       [''B, lic, Restricted, src'', ''A, lic, restricted, src'', ''C, lic, approved, src''] None =
     Inr [\<lparr>dependency = Some ''A'', license = Some ''lic'', status = Some ''restricted'', source = Some ''src''\<rparr>,
          \<lparr>dependency = Some ''B'', license = Some ''lic'', status = Some ''Restricted'', source = Some ''src''\<rparr>] \<and>
   sorted_wrt (dependencyOrder exampleHost)
     [\<lparr>dependency = Some ''A'', license = Some ''lic'', status = Some ''restricted'', source = Some ''src''\<rparr>,
      \<lparr>dependency = Some ''B'', license = Some ''lic'', status = Some ''Restricted'', source = Some ''src''\<rparr>]"
proof -
  let ?lines = "[''B, lic, Restricted, src'', ''A, lic, restricted, src'', ''C, lic, approved, src'']"
  have f: "3 \<le> length (split '', '' ''B, lic, Restricted, src'')"
    "3 \<le> length (split '', '' ''A, lic, restricted, src'')"
    "3 \<le> length (split '', '' ''C, lic, approved, src'')"
    by code_simp+
  then have h: "\<forall>line\<in>set ?lines. 3 \<le> length (split '', '' line)" by simp
  have c: "consistentComparator (localeCompare exampleHost)"
    by (simp add: localeCompare_example consistent_codeUnitCompare)
  have r: "getRestrictedDependenciesFromSummary exampleHost ?lines None =
     Inr [\<lparr>dependency = Some ''A'', license = Some ''lic'', status = Some ''restricted'', source = Some ''src''\<rparr>,
          \<lparr>dependency = Some ''B'', license = Some ''lic'', status = Some ''Restricted'', source = Some ''src''\<rparr>]"
    by code_simp
  from classifier_keeps_restricted_sorted [OF h, of exampleHost] c r
  have "sorted_wrt (dependencyOrder exampleHost)
     [\<lparr>dependency = Some ''A'', license = Some ''lic'', status = Some ''restricted'', source = Some ''src''\<rparr>,
      \<lparr>dependency = Some ''B'', license = Some ''lic'', status = Some ''Restricted'', source = Some ''src''\<rparr>]"
    by auto
  with f c r show ?thesis by simp
qed

text \<open>
  The counterexample to C2 as stated: of the two lines the first is restricted, the
  second has one field only, and the classifier throws instead of returning the first.
\<close>

theorem classifier_throws_on_undefined_status:
  "filter (\<lambda>e. map_option (toLocaleLowerCase exampleHost) (status e) = Some ''restricted'')
     (readSummaryLines [''A, EPL-2.0, restricted, npmjs'', ''B'']) =
     [\<lparr>dependency = Some ''A'', license = Some ''EPL-2.0'', status = Some ''restricted'',
       source = Some ''npmjs''\<rparr>] \<and>
   getRestrictedDependenciesFromSummary exampleHost [''A, EPL-2.0, restricted, npmjs'', ''B''] None =
     Inl TypeError"
  by code_simp

text \<open>
  C3, as amended: when the run reaches the reading of the summary (the first three blocks
  of \<^verbatim>\<open>main\<close> complete), the summary is read without failure, every line of it has
  at least three fields and no status is restricted once lowercased, the script prints
  "Done." and exits with code 0, whether a baseline file exists or not and whatever
  reading it would give. The claim as stated fails on a summary with a line of fewer than
  three fields: its status is \<^verbatim>\<open>undefined\<close>, the classifier throws and the run
  exits with code 1.
\<close>

theorem no_restricted_rows_exit_zero:
  assumes "snd (fetch h w) = Normal ()" and "snd (backup h w) = Normal ()"
    and "snd (scan h w) = Normal ()"
    and "summaryFailure w = None"
    and "\<forall>line\<in>set (summaryLines w). 3 \<le> length (split '', '' line)"
    and "\<forall>e\<in>set (readSummaryLines (summaryLines w)).
           map_option (toLocaleLowerCase h) (status e) \<noteq> Some ''restricted''"
  shows "script h (w\<lparr>baselineExists := b, baselineJson := j\<rparr>) =
           (fst (fetch h w) @ fst (backup h w) @ fst (scan h w) @ [info h ''Done.''], 0)"
proof -
  let ?w = "w\<lparr>baselineExists := b, baselineJson := j\<rparr>"
  from getRestricted_defined [OF assms(5), of h] obtain restricted where
    r: "getRestrictedDependenciesFromSummary h (summaryLines w) None = Inr restricted"
    and m: "mset restricted =
             mset (filter (\<lambda>e. map_option (toLocaleLowerCase h) (status e) = Some ''restricted'')
                     (readSummaryLines (summaryLines w)))"
    by blast
  from assms(6) have "filter (\<lambda>e. map_option (toLocaleLowerCase h) (status e) = Some ''restricted'')
                     (readSummaryLines (summaryLines w)) = []"
    by (simp add: filter_empty_conv)
  with m have "mset restricted = mset []" by (simp only:)
  then have "restricted = []" by simp
  with r assms(4) have "getRestrictedDependenciesFromSummary h (summaryLines ?w) (summaryFailure ?w) = Inr []"
    by simp
  moreover have "check h ?w [] = ([info h ''Done.''], Exit 0)"
    by (rule check_empty)
  ultimately have "script h ?w = (fst (fetch h ?w) @ fst (backup h ?w) @ fst (scan h ?w) @ [info h ''Done.''], 0)"
    using assms(1-3) by (intro script_reaches_check) (simp_all add: stages_ignore_baseline)
  then show ?thesis by (simp add: stages_ignore_baseline)
qed

theorem no_restricted_rows_exit_zero_witness:
  "3 \<le> length (split '', '' ''C, MIT, approved, clearlydefined'') \<and>
   map_option (toLocaleLowerCase exampleHost) (status (readSummaryLine ''C, MIT, approved, clearlydefined''))
     = Some ''approved'' \<and>
   script exampleHost (exampleWorld 0 [''C, MIT, approved, clearlydefined''] True (Inr (Num (Finite 7)))) =
     ([ConsoleWarn [Text ''INFO: Running dash-licenses...''], ConsoleWarn [Text ''INFO: Done.'']], 0) \<and>
   script exampleHost (exampleWorld 0 [''C, MIT, approved, clearlydefined''] False (Inl (HostError ''ENOENT''))) =
     ([ConsoleWarn [Text ''INFO: Running dash-licenses...''], ConsoleWarn [Text ''INFO: Done.'']], 0)"
proof -
  let ?l = "''C, MIT, approved, clearlydefined''"
  let ?w = "exampleWorld 0 [?l] False (Inr Null)"
  have f: "3 \<le> length (split '', '' ?l)" by code_simp
  have s: "map_option (toLocaleLowerCase exampleHost) (status (readSummaryLine ?l)) = Some ''approved''"
    by code_simp
  have h1: "\<forall>line\<in>set (summaryLines ?w). 3 \<le> length (split '', '' line)"
    using f by (simp add: example_summary)
  have st: "status (readSummaryLine ?l) = Some ''approved''" by code_simp
  have lw: "toLocaleLowerCase exampleHost ''approved'' = ''approved''" by code_simp
  have h2: "\<forall>e\<in>set (readSummaryLines (summaryLines ?w)).
           map_option (toLocaleLowerCase exampleHost) (status e) \<noteq> Some ''restricted''"
    using st lw by (simp add: example_summary readSummaryLines_def)
  have upd: "?w\<lparr>baselineExists := b, baselineJson := j\<rparr> = exampleWorld 0 [?l] b j" for b j
    by (simp add: exampleWorld_def)
  have "script exampleHost (?w\<lparr>baselineExists := b, baselineJson := j\<rparr>) =
      ([info exampleHost ''Running dash-licenses...'', info exampleHost ''Done.''], 0)" for b j
    using no_restricted_rows_exit_zero [where h = exampleHost and w = ?w and b = b and j = j, OF _ _ _ _ h1 h2]
    by (simp add: example_stages example_summary)
  then have "script exampleHost (exampleWorld 0 [?l] b j) =
      ([ConsoleWarn [Text ''INFO: Running dash-licenses...''], ConsoleWarn [Text ''INFO: Done.'']], 0)" for b j
    by (simp add: upd info_example)
  with f s show ?thesis by simp
qed

text \<open>
  The counterexample to C3 as stated: a summary of one line with a single field has no
  restricted row, and the run ends with the \<^verbatim>\<open>TypeError\<close> printed and exit code 1.
\<close>

theorem malformed_row_exit_one:
  "filter (\<lambda>e. map_option (toLocaleLowerCase exampleHost) (status e) = Some ''restricted'')
     (readSummaryLines [''left-pad@1.3.0'']) = [] \<and>
   script exampleHost (exampleWorld 0 [''left-pad@1.3.0''] False (Inl (HostError ''ENOENT''))) =
     ([ConsoleWarn [Text ''INFO: Running dash-licenses...''], ConsoleError [ErrorObject TypeError]], 1)"
  by code_simp

text \<open>
  C4: when the root of the baseline file is an array of strings, the loader returns a map
  whose keys are the strings, each with the value \<^verbatim>\<open>null\<close> (the array itself when no
  string occurs twice); when the root is an object, it returns the map of the entries of
  the object; for every other root (a number, a string, a boolean, \<^verbatim>\<open>null\<close>) it prints
  the error "Invalid format" with the path of the file and the process exits with code 1.
\<close>

theorem baseline_loader_shapes:
  "(\<exists>m. readBaseline h (Inr (Arr (map Str names))) = ([], Normal m) \<and>
        set (mapKeys m) = (\<lambda>s. Primitive (Str s)) ` set names \<and>
        distinct (mapKeys m) \<and>
        (\<forall>k\<in>set (mapKeys m). mapGet m k = Null) \<and>
        (distinct names \<longrightarrow> m = map (\<lambda>s. (Primitive (Str s), Null)) names)) \<and>
   (\<exists>m. readBaseline h (Inr (Obj entries)) = ([], Normal m) \<and>
        set (mapKeys m) = (\<lambda>k. Primitive (Str k)) ` fst ` set entries \<and>
        distinct (mapKeys m) \<and>
        (\<forall>k. mapGet m (Primitive (Str k)) =
               (case map_of (rev entries) k of None \<Rightarrow> Undefined | Some v \<Rightarrow> v)) \<and>
        (distinct (map fst entries) \<longrightarrow> m = map (\<lambda>(k, v). (Primitive (Str k), v)) entries)) \<and>
   ((\<forall>elements. json \<noteq> Arr elements) \<and> (\<forall>entries. json \<noteq> Obj entries) \<longrightarrow>
      readBaseline h (Inr json) =
        ([ConsoleError [Text (''ERROR: Invalid format for '' @ [CHR 0x22] @ dashLicensesBaseline h
                              @ [CHR 0x22])]], Exit 1) \<and>
      (baselineExists w \<and> restricted \<noteq> [] \<and> baselineJson w = Inr json \<longrightarrow>
         check h w restricted =
           ([info h ''Checking results against the baseline...'',
             ConsoleError [Text (''ERROR: Invalid format for '' @ [CHR 0x22] @ dashLicensesBaseline h
                                 @ [CHR 0x22])]], Exit 1)))"
proof (intro conjI impI)
  let ?pairs = "map (\<lambda>s. (Primitive (Str s), Null)) names"
  have "readBaseline h (Inr (Arr (map Str names))) = ([], Normal (newMap ?pairs))"
    by (simp add: readBaseline_array enumerate_strings)
  moreover have "set (mapKeys (newMap ?pairs)) = (\<lambda>s. Primitive (Str s)) ` set names"
    by (simp add: mapKeys_newMap set_newSet image_image)
  moreover have "distinct (mapKeys (newMap ?pairs))"
    by (simp add: mapKeys_newMap distinct_newSet)
  moreover have "\<forall>k\<in>set (mapKeys (newMap ?pairs)). mapGet (newMap ?pairs) k = Null"
    by (simp add: mapGet_null_values)
  moreover have "newMap ?pairs = ?pairs" if "distinct names"
  proof -
    have "inj_on (\<lambda>s. Primitive (Str s)) (set names)" by (simp add: inj_on_def)
    with that have "distinct (map fst ?pairs)"
      by (simp add: comp_def distinct_map)
    then show ?thesis by (rule newMap_distinct)
  qed
  ultimately show "\<exists>m. readBaseline h (Inr (Arr (map Str names))) = ([], Normal m) \<and>
        set (mapKeys m) = (\<lambda>s. Primitive (Str s)) ` set names \<and>
        distinct (mapKeys m) \<and>
        (\<forall>k\<in>set (mapKeys m). mapGet m k = Null) \<and>
        (distinct names \<longrightarrow> m = map (\<lambda>s. (Primitive (Str s), Null)) names)"
    by blast
next
  let ?pairs = "map (\<lambda>(k, v). (Primitive (Str k), v)) entries"
  have fst_pairs: "map fst ?pairs = map (\<lambda>k. Primitive (Str k)) (map fst entries)"
    by (induction entries) auto
  have "readBaseline h (Inr (Obj entries)) = ([], Normal (newMap ?pairs))"
    by (rule readBaseline_object)
  moreover have "set (mapKeys (newMap ?pairs)) = (\<lambda>k. Primitive (Str k)) ` fst ` set entries"
    by (simp only: mapKeys_newMap set_newSet fst_pairs set_map)
  moreover have "distinct (mapKeys (newMap ?pairs))"
    by (simp add: mapKeys_newMap distinct_newSet)
  moreover have "mapGet (newMap ?pairs) (Primitive (Str k)) =
               (case map_of (rev entries) k of None \<Rightarrow> Undefined | Some v \<Rightarrow> v)" for k
    using map_of_string_keys [of "rev entries" k] by (simp add: mapGet_newMap rev_map)
  moreover have "newMap ?pairs = ?pairs" if "distinct (map fst entries)"
  proof -
    have "inj_on (\<lambda>k. Primitive (Str k)) (set (map fst entries))" by (simp add: inj_on_def)
    with that have "distinct (map fst ?pairs)"
      by (simp only: fst_pairs distinct_map simp_thms)
    then show ?thesis by (rule newMap_distinct)
  qed
  ultimately show "\<exists>m. readBaseline h (Inr (Obj entries)) = ([], Normal m) \<and>
        set (mapKeys m) = (\<lambda>k. Primitive (Str k)) ` fst ` set entries \<and>
        distinct (mapKeys m) \<and>
        (\<forall>k. mapGet m (Primitive (Str k)) =
               (case map_of (rev entries) k of None \<Rightarrow> Undefined | Some v \<Rightarrow> v)) \<and>
        (distinct (map fst entries) \<longrightarrow> m = map (\<lambda>(k, v). (Primitive (Str k), v)) entries)"
    by blast
next
  assume a: "(\<forall>elements. json \<noteq> Arr elements) \<and> (\<forall>entries. json \<noteq> Obj entries)"
  then show r: "readBaseline h (Inr json) =
        ([ConsoleError [Text (''ERROR: Invalid format for '' @ [CHR 0x22] @ dashLicensesBaseline h
                              @ [CHR 0x22])]], Exit 1)"
    by (simp add: readBaseline_other)
  assume "baselineExists w \<and> restricted \<noteq> [] \<and> baselineJson w = Inr json"
  with r show "check h w restricted =
           ([info h ''Checking results against the baseline...'',
             ConsoleError [Text (''ERROR: Invalid format for '' @ [CHR 0x22] @ dashLicensesBaseline h
                                 @ [CHR 0x22])]], Exit 1)"
    by (simp add: check_invalid_baseline)
qed

theorem baseline_loader_shapes_witness:
  "readBaseline exampleHost (Inr (Arr (map Str [''A'', ''B'']))) =
     ([], Normal [(Primitive (Str ''A''), Null), (Primitive (Str ''B''), Null)]) \<and>
   readBaseline exampleHost (Inr (Obj [(''A'', Obj [(''note'', Num (Finite 1))])])) =
     ([], Normal [(Primitive (Str ''A''), Obj [(''note'', Num (Finite 1))])]) \<and>
   readBaseline exampleHost (Inr (Num (Finite 7))) =
     ([ConsoleError [Text (''ERROR: Invalid format for '' @ [CHR 0x22]
                           @ ''/theia/license-check-baseline.json'' @ [CHR 0x22])]], Exit 1) \<and>
   readBaseline exampleHost (Inr (Str ''A'')) =
     ([ConsoleError [Text (''ERROR: Invalid format for '' @ [CHR 0x22]
                           @ ''/theia/license-check-baseline.json'' @ [CHR 0x22])]], Exit 1) \<and>
   readBaseline exampleHost (Inr Null) =
     ([ConsoleError [Text (''ERROR: Invalid format for '' @ [CHR 0x22]
                           @ ''/theia/license-check-baseline.json'' @ [CHR 0x22])]], Exit 1) \<and>
   snd (script exampleHost (exampleWorld 0 [''A, MIT, restricted, x''] True (Inr (Bool True)))) = 1"
proof -
  have p: "dashLicensesBaseline exampleHost = ''/theia/license-check-baseline.json''"
    by (simp add: exampleHost_def)
  note inst = baseline_loader_shapes [of exampleHost "[''A'', ''B'']" "[(''A'', Obj [(''note'', Num (Finite 1))])]"]
  from inst [of Null] have 1: "readBaseline exampleHost (Inr (Arr (map Str [''A'', ''B'']))) =
     ([], Normal [(Primitive (Str ''A''), Null), (Primitive (Str ''B''), Null)])"
    by auto
  from inst [of Null] have 2: "readBaseline exampleHost (Inr (Obj [(''A'', Obj [(''note'', Num (Finite 1))])])) =
     ([], Normal [(Primitive (Str ''A''), Obj [(''note'', Num (Finite 1))])])"
    by auto
  from inst [of "Num (Finite 7)"] inst [of "Str ''A''"] inst [of Null] p
  have 3: "readBaseline exampleHost (Inr (Num (Finite 7))) =
     ([ConsoleError [Text (''ERROR: Invalid format for '' @ [CHR 0x22]
                           @ ''/theia/license-check-baseline.json'' @ [CHR 0x22])]], Exit 1)"
    "readBaseline exampleHost (Inr (Str ''A'')) =
     ([ConsoleError [Text (''ERROR: Invalid format for '' @ [CHR 0x22]
                           @ ''/theia/license-check-baseline.json'' @ [CHR 0x22])]], Exit 1)"
    "readBaseline exampleHost (Inr Null) =
     ([ConsoleError [Text (''ERROR: Invalid format for '' @ [CHR 0x22]
                           @ ''/theia/license-check-baseline.json'' @ [CHR 0x22])]], Exit 1)"
    by simp_all
  have 4: "snd (script exampleHost (exampleWorld 0 [''A, MIT, restricted, x''] True (Inr (Bool True)))) = 1"
    by code_simp
  from 1 2 3 4 show ?thesis by (simp only: simp_thms)
qed

text \<open>
  C5, as amended: for every line the parser splits at each occurrence of comma-space,
  from left to right; the fields joined by comma-space give the line back and no field
  contains comma-space. The first four fields become dependency, license, status and
  source; the dependency is always there, and each of the other three is
  \<^verbatim>\<open>undefined\<close> exactly when the line has too few fields. Parsing raises nothing. The
  classifier does not fail when only the source is missing (every line has three
  fields), but it throws a \<^verbatim>\<open>TypeError\<close> as soon as one line has fewer than three
  fields, and the run then ends with that error printed and exit code 1. The claim as
  stated fails on the line \<open>A, MIT\<close>, whose status is \<^verbatim>\<open>undefined\<close>.
\<close>

theorem parser_fields_and_their_consumers:
  "(split '', '' line \<noteq> [] \<and>
    joinWith '', '' (split '', '' line) = line \<and>
    (\<forall>f\<in>set (split '', '' line). \<forall>u v. f \<noteq> u @ '', '' @ v) \<and>
    dependency (readSummaryLine line) = Some (hd (split '', '' line)) \<and>
    license (readSummaryLine line) = elementAt (split '', '' line) 1 \<and>
    status (readSummaryLine line) = elementAt (split '', '' line) 2 \<and>
    source (readSummaryLine line) = elementAt (split '', '' line) 3 \<and>
    (license (readSummaryLine line) = None \<longleftrightarrow> length (split '', '' line) < 2) \<and>
    (status (readSummaryLine line) = None \<longleftrightarrow> length (split '', '' line) < 3) \<and>
    (source (readSummaryLine line) = None \<longleftrightarrow> length (split '', '' line) < 4)) \<and>
   ((\<forall>line\<in>set lines. 3 \<le> length (split '', '' line)) \<longrightarrow>
      (\<exists>restricted. getRestrictedDependenciesFromSummary h lines None = Inr restricted)) \<and>
   ((\<exists>line\<in>set lines. length (split '', '' line) < 3) \<longrightarrow>
      getRestrictedDependenciesFromSummary h lines failure = Inl TypeError) \<and>
   (snd (fetch h w) = Normal () \<and> snd (backup h w) = Normal () \<and> snd (scan h w) = Normal () \<and>
    (\<exists>line\<in>set (summaryLines w). length (split '', '' line) < 3) \<longrightarrow>
      script h w =
        (fst (fetch h w) @ fst (backup h w) @ fst (scan h w) @ [ConsoleError [ErrorObject TypeError]],
         1))"
proof (intro conjI impI ballI allI)
  show "split '', '' line \<noteq> []" by (simp add: split_not_Nil)
  show "joinWith '', '' (split '', '' line) = line" by (simp add: joinWith_split)
  show "f \<noteq> u @ '', '' @ v" if "f \<in> set (split '', '' line)" for f u v
    using that by (intro split_fields_free) simp_all
  show "dependency (readSummaryLine line) = Some (hd (split '', '' line))"
    by (rule dependency_readSummaryLine)
  show "license (readSummaryLine line) = elementAt (split '', '' line) 1"
    "status (readSummaryLine line) = elementAt (split '', '' line) 2"
    "source (readSummaryLine line) = elementAt (split '', '' line) 3"
    by (rule fields_readSummaryLine)+
  show "license (readSummaryLine line) = None \<longleftrightarrow> length (split '', '' line) < 2"
    "status (readSummaryLine line) = None \<longleftrightarrow> length (split '', '' line) < 3"
    "source (readSummaryLine line) = None \<longleftrightarrow> length (split '', '' line) < 4"
    by (auto simp: fields_readSummaryLine elementAt_None_iff)
  show "\<exists>restricted. getRestrictedDependenciesFromSummary h lines None = Inr restricted"
    if "\<forall>line\<in>set lines. 3 \<le> length (split '', '' line)"
    using getRestricted_defined [OF that, of h] by blast
  show "getRestrictedDependenciesFromSummary h lines failure = Inl TypeError"
    if "\<exists>line\<in>set lines. length (split '', '' line) < 3"
    using that by (rule getRestricted_undefined)
  show "script h w =
        (fst (fetch h w) @ fst (backup h w) @ fst (scan h w) @ [ConsoleError [ErrorObject TypeError]],
         1)"
    if "snd (fetch h w) = Normal () \<and> snd (backup h w) = Normal () \<and> snd (scan h w) = Normal () \<and>
    (\<exists>line\<in>set (summaryLines w). length (split '', '' line) < 3)"
    using that by (intro script_classifier_throws getRestricted_undefined) simp_all
qed

theorem parser_fields_and_their_consumers_witness:
  "split '', '' ''A, MIT, restricted'' = [''A'', ''MIT'', ''restricted''] \<and>
   readSummaryLine ''A, MIT, restricted'' =
     \<lparr>dependency = Some ''A'', license = Some ''MIT'', status = Some ''restricted'', source = None\<rparr> \<and>
   getRestrictedDependenciesFromSummary exampleHost [''A, MIT, restricted''] None =
     Inr [\<lparr>dependency = Some ''A'', license = Some ''MIT'', status = Some ''restricted'', source = None\<rparr>] \<and>
   split '', '' ''A, MIT'' = [''A'', ''MIT''] \<and>
   getRestrictedDependenciesFromSummary exampleHost [''A, MIT''] None = Inl TypeError \<and>
   script exampleHost (exampleWorld 0 [''A, MIT''] True (Inr (Arr [Str ''A'']))) =
     ([ConsoleWarn [Text ''INFO: Running dash-licenses...''], ConsoleError [ErrorObject TypeError]], 1)"
proof -
  let ?w = "exampleWorld 0 [''A, MIT''] True (Inr (Arr [Str ''A'']))"
  have s3: "split '', '' ''A, MIT, restricted'' = [''A'', ''MIT'', ''restricted'']" by code_simp
  have s2: "split '', '' ''A, MIT'' = [''A'', ''MIT'']" by code_simp
  note inst = parser_fields_and_their_consumers
     [of "''A, MIT, restricted''" "[''A, MIT, restricted'']" exampleHost None ?w]
  note inst' = parser_fields_and_their_consumers
     [of "''A, MIT''" "[''A, MIT'']" exampleHost None ?w]
  from inst s3 have e: "readSummaryLine ''A, MIT, restricted'' =
     \<lparr>dependency = Some ''A'', license = Some ''MIT'', status = Some ''restricted'', source = None\<rparr>"
    by (intro dashSummaryEntry.equality) (simp_all add: elementAt_def)
  have r: "getRestrictedDependenciesFromSummary exampleHost [''A, MIT, restricted''] None =
     Inr [\<lparr>dependency = Some ''A'', license = Some ''MIT'', status = Some ''restricted'', source = None\<rparr>]"
    by code_simp
  from inst' s2 have t: "getRestrictedDependenciesFromSummary exampleHost [''A, MIT''] None = Inl TypeError"
    by simp
  from inst' s2 have "script exampleHost ?w =
     ([info exampleHost ''Running dash-licenses...'', ConsoleError [ErrorObject TypeError]], 1)"
    by (simp add: example_stages example_summary)
  with s3 s2 e r t show ?thesis by (simp add: info_example)
qed

text \<open>
  The counterexample to C5 as stated: the line \<open>A, MIT\<close> is parsed to an entry
  without status and source, and the classifier fails on it.
\<close>

theorem classifier_fails_on_short_line:
  "readSummaryLine ''A, MIT'' =
     \<lparr>dependency = Some ''A'', license = Some ''MIT'', status = None, source = None\<rparr> \<and>
   getRestrictedDependenciesFromSummary exampleHost [''A, MIT''] None = Inl TypeError"
  by code_simp

text \<open>
  C6: when no baseline file exists and the list of restricted entries is not empty, the
  run prints the error "Found unhandled restricted dependencies!", then one line for
  every restricted entry, and exits with code 1. The lines are those of
  \<^verbatim>\<open>logRestrictedDashSummaryEntries\<close>, the function that also prints the unhandled
  findings: \<open>X\<close>, the dependency, a comma, a space and the license, in red.
\<close>

theorem no_baseline_restricted_fails:
  assumes "\<not> baselineExists w" and "restricted \<noteq> []"
  shows "check h w restricted =
           (error h ''Found unhandled restricted dependencies!'' # map (restrictedLine h) restricted,
            Exit 1) \<and>
         (\<forall>e\<in>set restricted. \<forall>d l. dependency e = Some d \<and> license e = Some l \<longrightarrow>
            restrictedLine h e = ConsoleLog [Text (red h (''X '' @ d @ '', '' @ l))]) \<and>
         (snd (fetch h w) = Normal () \<and> snd (backup h w) = Normal () \<and> snd (scan h w) = Normal () \<and>
          getRestrictedDependenciesFromSummary h (summaryLines w) (summaryFailure w) = Inr restricted \<longrightarrow>
            script h w =
              (fst (fetch h w) @ fst (backup h w) @ fst (scan h w)
                 @ error h ''Found unhandled restricted dependencies!''
                 # map (restrictedLine h) restricted, 1))"
proof (intro conjI ballI allI impI)
  show c: "check h w restricted =
           (error h ''Found unhandled restricted dependencies!'' # map (restrictedLine h) restricted,
            Exit 1)"
    using assms by (rule check_no_baseline)
  show "restrictedLine h e = ConsoleLog [Text (red h (''X '' @ d @ '', '' @ l))]"
    if "dependency e = Some d \<and> license e = Some l" for e d l
    using that by (simp add: restrictedLine_defined)
  show "script h w =
              (fst (fetch h w) @ fst (backup h w) @ fst (scan h w)
                 @ error h ''Found unhandled restricted dependencies!''
                 # map (restrictedLine h) restricted, 1)"
    if "snd (fetch h w) = Normal () \<and> snd (backup h w) = Normal () \<and> snd (scan h w) = Normal () \<and>
          getRestrictedDependenciesFromSummary h (summaryLines w) (summaryFailure w) = Inr restricted"
    using that c by (simp add: script_reaches_check)
qed

theorem no_baseline_restricted_fails_witness:
  "\<not> baselineExists (exampleWorld 0 [''A, GPL-3.0, restricted, clearlydefined''] False (Inl (HostError ''ENOENT''))) \<and>
   getRestrictedDependenciesFromSummary exampleHost [''A, GPL-3.0, restricted, clearlydefined''] None =
     Inr [\<lparr>dependency = Some ''A'', license = Some ''GPL-3.0'', status = Some ''restricted'',
           source = Some ''clearlydefined''\<rparr>] \<and>
   script exampleHost (exampleWorld 0 [''A, GPL-3.0, restricted, clearlydefined''] False (Inl (HostError ''ENOENT''))) =
     ([ConsoleWarn [Text ''INFO: Running dash-licenses...''],
       ConsoleError [Text ''ERROR: Found unhandled restricted dependencies!''],
       ConsoleLog [Text ''X A, GPL-3.0'']], 1)"
proof -
  let ?w = "exampleWorld 0 [''A, GPL-3.0, restricted, clearlydefined''] False (Inl (HostError ''ENOENT''))"
  let ?e = "\<lparr>dependency = Some ''A'', license = Some ''GPL-3.0'', status = Some ''restricted'',
           source = Some ''clearlydefined''\<rparr>"
  have nb: "\<not> baselineExists ?w" by (simp add: example_summary)
  have r: "getRestrictedDependenciesFromSummary exampleHost [''A, GPL-3.0, restricted, clearlydefined''] None = Inr [?e]"
    by code_simp
  have line: "restrictedLine exampleHost ?e = ConsoleLog [Text ''X A, GPL-3.0'']"
    by (simp add: restrictedLine_defined red_def style_def exampleHost_def)
  from no_baseline_restricted_fails [OF nb, of "[?e]" exampleHost] r
  have "script exampleHost ?w =
     ([info exampleHost ''Running dash-licenses...'',
       error exampleHost ''Found unhandled restricted dependencies!'',
       restrictedLine exampleHost ?e], 1)"
    by (simp add: example_stages example_summary)
  with nb r line show ?thesis
    by (simp add: info_example error_example)
qed

text \<open>
  C7: when the scanner has started, its exit code or signal only adds a warning: the
  third block of \<^verbatim>\<open>main\<close> completes normally, with the warning printed exactly when
  the scanner was ended by a signal or its exit code is not 0, and \<^verbatim>\<open>main\<close> goes on
  to read the summary. The download is different: when \<^verbatim>\<open>curl\<close> has started and is
  ended by a signal or exits with a code other than 0, the run ends with the error
  printed and exit code 1.
\<close>

theorem scanner_failure_warns_download_failure_aborts:
  "(spawn_error (javaReturns w) = None \<longrightarrow>
      scan h w =
        (info h ''Running dash-licenses...''
           # (case getErrorFromStatus (spawned ''java'' (javaArgs h) (javaReturns w)) of
                None \<Rightarrow> []
              | Some m \<Rightarrow> [warn h m]),
         Normal ()) \<and>
      (getErrorFromStatus (spawned ''java'' (javaArgs h) (javaReturns w)) = None \<longleftrightarrow>
         spawn_signal (javaReturns w) = None \<and> spawn_status (javaReturns w) = Some 0) \<and>
      (snd (fetch h w) = Normal () \<and> snd (backup h w) = Normal () \<longrightarrow>
         main h w =
           (fst (fetch h w) @ fst (backup h w) @ fst (scan h w)
              @ fst (bindProc (fromResult (getRestrictedDependenciesFromSummary h
                                 (summaryLines w) (summaryFailure w))) (check h w)),
            snd (bindProc (fromResult (getRestrictedDependenciesFromSummary h
                                 (summaryLines w) (summaryFailure w))) (check h w))))) \<and>
   (\<not> jarExists w \<and> mkdirFailure w = None \<and> spawn_error (curlReturns w) = None \<and>
    (spawn_signal (curlReturns w) \<noteq> None \<or> spawn_status (curlReturns w) \<noteq> Some 0) \<longrightarrow>
      (\<exists>m. getErrorFromStatus (spawned ''curl'' (curlArgs h) (curlReturns w)) = Some m \<and>
           script h w = ([info h ''Fetching dash-licenses...'', error h m], 1)))"
proof (intro conjI impI)
  assume "spawn_error (javaReturns w) = None"
  then show "scan h w =
        (info h ''Running dash-licenses...''
           # (case getErrorFromStatus (spawned ''java'' (javaArgs h) (javaReturns w)) of
                None \<Rightarrow> []
              | Some m \<Rightarrow> [warn h m]),
         Normal ())"
    by (rule scan_started)
next
  show "getErrorFromStatus (spawned ''java'' (javaArgs h) (javaReturns w)) = None \<longleftrightarrow>
         spawn_signal (javaReturns w) = None \<and> spawn_status (javaReturns w) = Some 0"
    by (simp add: getErrorFromStatus_None spawned_fields)
next
  assume "spawn_error (javaReturns w) = None"
    and "snd (fetch h w) = Normal () \<and> snd (backup h w) = Normal ()"
  then show "main h w =
           (fst (fetch h w) @ fst (backup h w) @ fst (scan h w)
              @ fst (bindProc (fromResult (getRestrictedDependenciesFromSummary h
                                 (summaryLines w) (summaryFailure w))) (check h w)),
            snd (bindProc (fromResult (getRestrictedDependenciesFromSummary h
                                 (summaryLines w) (summaryFailure w))) (check h w)))"
    by (simp add: main_reaches_summary scan_started)
next
  assume a: "\<not> jarExists w \<and> mkdirFailure w = None \<and> spawn_error (curlReturns w) = None \<and>
    (spawn_signal (curlReturns w) \<noteq> None \<or> spawn_status (curlReturns w) \<noteq> Some 0)"
  then have "getErrorFromStatus (spawned ''curl'' (curlArgs h) (curlReturns w)) \<noteq> None"
    by (simp add: getErrorFromStatus_None spawned_fields)
  then obtain m where m: "getErrorFromStatus (spawned ''curl'' (curlArgs h) (curlReturns w)) = Some m"
    by blast
  with a have "fetch h w = ([info h ''Fetching dash-licenses...'', error h m], Exit 1)"
    by (simp add: fetch_download_failed)
  then have "script h w = ([info h ''Fetching dash-licenses...'', error h m], 1)"
    by (rule script_fetch_exit)
  with m show "\<exists>m. getErrorFromStatus (spawned ''curl'' (curlArgs h) (curlReturns w)) = Some m \<and>
           script h w = ([info h ''Fetching dash-licenses...'', error h m], 1)"
    by blast
qed

theorem scanner_failure_warns_download_failure_aborts_witness:
  "spawn_error (javaReturns (exampleWorld 2 [] False (Inr Null))) = None \<and>
   spawn_status (javaReturns (exampleWorld 2 [] False (Inr Null))) = Some 2 \<and>
   snd (scan exampleHost (exampleWorld 2 [] False (Inr Null))) = Normal () \<and>
   length (fst (scan exampleHost (exampleWorld 2 [] False (Inr Null)))) = 2 \<and>
   snd (script exampleHost (exampleWorld 2 [] False (Inr Null))) = 0 \<and>
   spawn_signal (curlReturns ((exampleWorld 0 [] False (Inr Null))
       \<lparr>jarExists := False, curlReturns := killed ''SIGKILL''\<rparr>)) = Some ''SIGKILL'' \<and>
   snd (script exampleHost ((exampleWorld 0 [] False (Inr Null))
       \<lparr>jarExists := False, curlReturns := killed ''SIGKILL''\<rparr>)) = 1"
proof -
  let ?w = "exampleWorld 2 [] False (Inr Null)"
  let ?w' = "(exampleWorld 0 [] False (Inr Null))\<lparr>jarExists := False, curlReturns := killed ''SIGKILL''\<rparr>"
  have started: "spawn_error (javaReturns ?w) = None" "spawn_status (javaReturns ?w) = Some 2"
    "spawn_signal (javaReturns ?w) = None"
    by (simp_all add: exampleWorld_def exited_def)
  have pre: "snd (fetch exampleHost ?w) = Normal () \<and> snd (backup exampleHost ?w) = Normal ()"
    by (simp add: exampleWorld_def fetch_def backup_def ret_def)
  have curl: "\<not> jarExists ?w' \<and> mkdirFailure ?w' = None \<and> spawn_error (curlReturns ?w') = None \<and>
    (spawn_signal (curlReturns ?w') \<noteq> None \<or> spawn_status (curlReturns ?w') \<noteq> Some 0)"
    "spawn_signal (curlReturns ?w') = Some ''SIGKILL''"
    by (simp_all add: exampleWorld_def killed_def)
  note inst = scanner_failure_warns_download_failure_aborts [of ?w exampleHost]
  note inst' = scanner_failure_warns_download_failure_aborts [of ?w' exampleHost]
  from inst started obtain m where
    scan: "scan exampleHost ?w = ([info exampleHost ''Running dash-licenses...'', warn exampleHost m], Normal ())"
    by (cases "getErrorFromStatus (spawned ''java'' (javaArgs exampleHost) (javaReturns ?w))") auto
  have "getRestrictedDependenciesFromSummary exampleHost (summaryLines ?w) (summaryFailure ?w) = Inr []"
    by (simp add: exampleWorld_def getRestrictedDependenciesFromSummary_def
        getRestrictedDependencies_def readSummaryLines_def)
  with inst started pre have "snd (main exampleHost ?w) = Exit 0"
    by (simp add: fromResult_def ret_def bindProc_Normal check_empty)
  then have exit0: "snd (script exampleHost ?w) = 0"
    by (rule script_exit_code)
  from inst' curl have "snd (script exampleHost ?w') = 1"
    by auto
  with started scan exit0 curl show ?thesis by simp
qed

text \<open>
  C8: on a heap that holds the array of restricted entries and the baseline map, the
  reconciliation succeeds and changes no object that existed before, so neither of its
  inputs: it only allocates the set \<open>unmatched\<close>, which it alone writes, and the array
  \<open>unhandled\<close>. The contents of the two new objects are the values of the function
  \<open>reconcile\<close> on the contents of the two inputs, whatever else the heap holds; and
  running the reconciliation a second time, on the heap the first run left, gives two
  new objects with the same contents again.
\<close>

theorem reconciliation_leaves_inputs_unchanged:
  assumes "elementAt hp restrictedRef = Some (ArrayObject restricted)"
    and "elementAt hp baselineRef = Some (MapObject baseline)"
  shows "\<exists>hp' unmatchedRef unhandledRef.
     reconcileOnHeap hp restrictedRef baselineRef = Some (hp', unmatchedRef, unhandledRef) \<and>
     take (length hp) hp' = hp \<and>
     length hp \<le> unmatchedRef \<and> length hp \<le> unhandledRef \<and>
     elementAt hp' restrictedRef = Some (ArrayObject restricted) \<and>
     elementAt hp' baselineRef = Some (MapObject baseline) \<and>
     elementAt hp' unmatchedRef = Some (SetObject (fst (reconcile baseline restricted))) \<and>
     elementAt hp' unhandledRef = Some (ArrayObject (snd (reconcile baseline restricted))) \<and>
     (\<exists>hp'' unmatchedRef' unhandledRef'.
        reconcileOnHeap hp' restrictedRef baselineRef = Some (hp'', unmatchedRef', unhandledRef') \<and>
        take (length hp') hp'' = hp' \<and>
        elementAt hp'' unmatchedRef' = elementAt hp' unmatchedRef \<and>
        elementAt hp'' unhandledRef' = elementAt hp' unhandledRef)"
proof -
  let ?new = "[SetObject (fst (reconcile baseline restricted)),
               ArrayObject (snd (reconcile baseline restricted))]"
  let ?hp' = "hp @ ?new"
  have first: "reconcileOnHeap hp restrictedRef baselineRef = Some (?hp', length hp, Suc (length hp))"
    using assms by (rule reconcileOnHeap_eq)
  from assms have r: "elementAt ?hp' restrictedRef = Some (ArrayObject restricted)"
    and b: "elementAt ?hp' baselineRef = Some (MapObject baseline)"
    by (simp_all add: elementAt_Some_iff nth_append)
  have second: "reconcileOnHeap ?hp' restrictedRef baselineRef =
      Some (?hp' @ ?new, length ?hp', Suc (length ?hp'))"
    using r b by (rule reconcileOnHeap_eq)
  have new: "elementAt ?hp' (length hp) = Some (SetObject (fst (reconcile baseline restricted)))"
    "elementAt ?hp' (Suc (length hp)) = Some (ArrayObject (snd (reconcile baseline restricted)))"
    by (simp_all add: elementAt_Some_iff nth_append)
  have again: "elementAt (?hp' @ ?new) (length ?hp') = elementAt ?hp' (length hp)"
    "elementAt (?hp' @ ?new) (Suc (length ?hp')) = elementAt ?hp' (Suc (length hp))"
    by (simp_all add: elementAt_def nth_append)
  from first second r b new again show ?thesis
    by (intro exI conjI) (assumption | simp)+
qed

theorem reconciliation_leaves_inputs_unchanged_witness:
  "elementAt
     [ArrayObject [\<lparr>dependency = Some ''A'', license = Some ''MIT'', status = Some ''restricted'', source = None\<rparr>,
                   \<lparr>dependency = Some ''B'', license = Some ''GPL-3.0'', status = Some ''restricted'', source = None\<rparr>],
      MapObject [(Primitive (Str ''A''), Null), (Primitive (Str ''Z''), Str ''note'')]] 0 =
     Some (ArrayObject [\<lparr>dependency = Some ''A'', license = Some ''MIT'', status = Some ''restricted'', source = None\<rparr>,
                        \<lparr>dependency = Some ''B'', license = Some ''GPL-3.0'', status = Some ''restricted'', source = None\<rparr>]) \<and>
   reconcileOnHeap
     [ArrayObject [\<lparr>dependency = Some ''A'', license = Some ''MIT'', status = Some ''restricted'', source = None\<rparr>,
                   \<lparr>dependency = Some ''B'', license = Some ''GPL-3.0'', status = Some ''restricted'', source = None\<rparr>],
      MapObject [(Primitive (Str ''A''), Null), (Primitive (Str ''Z''), Str ''note'')]] 0 1 =
     Some ([ArrayObject [\<lparr>dependency = Some ''A'', license = Some ''MIT'', status = Some ''restricted'', source = None\<rparr>,
                         \<lparr>dependency = Some ''B'', license = Some ''GPL-3.0'', status = Some ''restricted'', source = None\<rparr>],
            MapObject [(Primitive (Str ''A''), Null), (Primitive (Str ''Z''), Str ''note'')],
            SetObject [Primitive (Str ''Z'')],
            ArrayObject [\<lparr>dependency = Some ''B'', license = Some ''GPL-3.0'', status = Some ''restricted'', source = None\<rparr>]],
           2, 3)"
proof -
  let ?a = "\<lparr>dependency = Some ''A'', license = Some ''MIT'', status = Some ''restricted'', source = None\<rparr>"
  let ?b = "\<lparr>dependency = Some ''B'', license = Some ''GPL-3.0'', status = Some ''restricted'', source = None\<rparr>"
  let ?m = "[(Primitive (Str ''A''), Null), (Primitive (Str ''Z''), Str ''note'')]"
  let ?hp = "[ArrayObject [?a, ?b], MapObject ?m]"
  have r: "elementAt ?hp 0 = Some (ArrayObject [?a, ?b])"
    and b: "elementAt ?hp 1 = Some (MapObject ?m)"
    by (simp_all add: elementAt_def)
  have rc: "reconcile ?m [?a, ?b] = ([Primitive (Str ''Z'')], [?b])"
    by code_simp
  from reconciliation_leaves_inputs_unchanged [OF r b] obtain hp' u n where
    run: "reconcileOnHeap ?hp 0 1 = Some (hp', u, n)" and "take (length ?hp) hp' = ?hp"
    by blast
  have "reconcileOnHeap ?hp 0 1 = Some (?hp @ [SetObject [Primitive (Str ''Z'')], ArrayObject [?b]], 2, 3)"
    using reconcileOnHeap_eq [OF r b] rc by simp
  with r run show ?thesis by simp
qed

text \<open>
  C9, as amended: when the set of unmatched keys is not empty, the script prints one
  warning, then for each unmatched key, in order, the line \<open>> key\<close>, followed by the
  key and its annotation exactly when the annotation is truthy, that is, when it is none
  of \<^verbatim>\<open>undefined\<close>, \<^verbatim>\<open>null\<close>, \<^verbatim>\<open>false\<close>, \<^verbatim>\<open>0\<close> and the empty string. When
  every unmatched key can be converted to a string, as every string key can, the report
  completes normally, and whether the run fails depends on the unhandled entries only.
  When the conversion of an unmatched key throws (an object with a property
  \<^verbatim>\<open>toString\<close> of its own, or an array that holds one), the report stops at that key
  after the lines of the keys before it, and the run fails with a \<^verbatim>\<open>TypeError\<close>.
\<close>

theorem unmatched_entries_reported:
  "((\<forall>k\<in>set unmatched. \<exists>name. toString h (keyValue k) = Inr name) \<longrightarrow>
      reportUnmatched h baseline unmatched =
        (if unmatched = [] then []
         else warn h ''Some entries in the baseline did not match anything from dash-licenses output:''
              # concat (map (keyLines h baseline) unmatched),
         Normal ())) \<and>
   ((\<forall>k\<in>set ks. \<exists>name. toString h (keyValue k) = Inr name) \<and> toString h (keyValue k) = Inl e \<longrightarrow>
      e = TypeError \<and>
      reportUnmatched h baseline (ks @ k # rest) =
        (warn h ''Some entries in the baseline did not match anything from dash-licenses output:''
           # concat (map (keyLines h baseline) ks),
         Throw TypeError)) \<and>
   (toString h (keyValue k) = Inr name \<longrightarrow>
      keyLines h baseline k =
        ConsoleLog [Text (magenta h (''> '' @ name))]
        # (if truthy (mapGet baseline k)
           then [ConsoleWarn [Text (name @ '':''), Value (mapGet baseline k)]]
           else [])) \<and>
   (truthy v \<longleftrightarrow> v \<noteq> Undefined \<and> v \<noteq> Null \<and> v \<noteq> Bool False \<and> v \<noteq> Num (Finite 0) \<and> v \<noteq> Str []) \<and>
   toString h (keyValue (Primitive (Str s))) = Inr s \<and>
   (toString h (keyValue (Reference i (Obj entries))) =
      (if ''toString'' \<in> fst ` set entries then Inl TypeError else Inr ''[object Object]'')) \<and>
   ((\<forall>k\<in>set (fst (reconcile baseline restricted)). \<exists>name. toString h (keyValue k) = Inr name) \<longrightarrow>
      fst (checkBaseline h baseline restricted) =
        fst (reportUnmatched h baseline (fst (reconcile baseline restricted)))
          @ (if snd (reconcile baseline restricted) = [] then []
             else error h (''Found results that aren'' @ [CHR 0x27] @ ''t part of the baseline!'')
                  # map (restrictedLine h) (snd (reconcile baseline restricted))) \<and>
      snd (checkBaseline h baseline restricted) =
        (if snd (reconcile baseline restricted) = [] then Normal () else Exit 1)) \<and>
   ((\<exists>k\<in>set (fst (reconcile baseline restricted)). \<exists>e. toString h (keyValue k) = Inl e) \<longrightarrow>
      snd (checkBaseline h baseline restricted) = Throw TypeError)"
proof (intro conjI impI)
  assume "\<forall>k\<in>set unmatched. \<exists>name. toString h (keyValue k) = Inr name"
  then show "reportUnmatched h baseline unmatched =
        (if unmatched = [] then []
         else warn h ''Some entries in the baseline did not match anything from dash-licenses output:''
              # concat (map (keyLines h baseline) unmatched),
         Normal ())"
    by (rule reportUnmatched_converted)
next
  assume a: "(\<forall>k\<in>set ks. \<exists>name. toString h (keyValue k) = Inr name) \<and> toString h (keyValue k) = Inl e"
  then have "toString h (keyValue k) = Inl e" by simp
  then show e: "e = TypeError" by (rule toString_throws_TypeError(1))
  from a e show "reportUnmatched h baseline (ks @ k # rest) =
        (warn h ''Some entries in the baseline did not match anything from dash-licenses output:''
           # concat (map (keyLines h baseline) ks),
         Throw TypeError)"
    by (simp add: reportUnmatched_throws)
next
  assume "toString h (keyValue k) = Inr name"
  then show "keyLines h baseline k =
        ConsoleLog [Text (magenta h (''> '' @ name))]
        # (if truthy (mapGet baseline k)
           then [ConsoleWarn [Text (name @ '':''), Value (mapGet baseline k)]]
           else [])"
    by (simp add: keyLines_def unmatchedLines_def Let_def)
next
  show "truthy v \<longleftrightarrow> v \<noteq> Undefined \<and> v \<noteq> Null \<and> v \<noteq> Bool False \<and> v \<noteq> Num (Finite 0) \<and> v \<noteq> Str []"
    by (cases v) (auto simp: truthy_def)
  show "toString h (keyValue (Primitive (Str s))) = Inr s"
    by (simp add: keyValue_def)
  show "toString h (keyValue (Reference i (Obj entries))) =
      (if ''toString'' \<in> fst ` set entries then Inl TypeError else Inr ''[object Object]'')"
    by (simp add: keyValue_def)
next
  obtain unmatched' unhandled where r: "reconcile baseline restricted = (unmatched', unhandled)"
    by (cases "reconcile baseline restricted")
  assume "\<forall>k\<in>set (fst (reconcile baseline restricted)). \<exists>name. toString h (keyValue k) = Inr name"
  with r have "\<forall>k\<in>set unmatched'. \<exists>name. toString h (keyValue k) = Inr name" by simp
  from checkBaseline_eq [OF r this] r
  show "fst (checkBaseline h baseline restricted) =
        fst (reportUnmatched h baseline (fst (reconcile baseline restricted)))
          @ (if snd (reconcile baseline restricted) = [] then []
             else error h (''Found results that aren'' @ [CHR 0x27] @ ''t part of the baseline!'')
                  # map (restrictedLine h) (snd (reconcile baseline restricted)))"
    and "snd (checkBaseline h baseline restricted) =
        (if snd (reconcile baseline restricted) = [] then Normal () else Exit 1)"
    by simp_all
next
  obtain unmatched' unhandled where r: "reconcile baseline restricted = (unmatched', unhandled)"
    by (cases "reconcile baseline restricted")
  assume "\<exists>k\<in>set (fst (reconcile baseline restricted)). \<exists>e. toString h (keyValue k) = Inl e"
  with r have "\<exists>k\<in>set unmatched'. \<exists>e. toString h (keyValue k) = Inl e" by simp
  from reportUnmatched_some_key_throws [OF this, of baseline]
  obtain out where "reportUnmatched h baseline unmatched' = (out, Throw TypeError)"
    by (metis prod.collapse)
  with r show "snd (checkBaseline h baseline restricted) = Throw TypeError"
    by (simp add: checkBaseline_throws)
qed

theorem unmatched_entries_reported_witness:
  "toString exampleHost (keyValue (Primitive (Str ''Z''))) = Inr ''Z'' \<and>
   toString exampleHost (keyValue (Primitive (Str ''Y''))) = Inr ''Y'' \<and>
   reportUnmatched exampleHost
     [(Primitive (Str ''A''), Null), (Primitive (Str ''Z''), Str ''note''), (Primitive (Str ''Y''), Null)]
     [Primitive (Str ''Z''), Primitive (Str ''Y'')] =
     ([ConsoleWarn [Text ''WARN: Some entries in the baseline did not match anything from dash-licenses output:''],
       ConsoleLog [Text ''> Z''],
       ConsoleWarn [Text ''Z:'', Value (Str ''note'')],
       ConsoleLog [Text ''> Y'']], Normal ()) \<and>
   truthy (Str ''note'') \<and> \<not> truthy Null \<and>
   toString exampleHost (keyValue (Reference 2 (Obj [(''toString'', Null)]))) = Inl TypeError \<and>
   reportUnmatched exampleHost
     [(Primitive (Str ''Z''), Null), (Primitive (Str ''A''), Null),
      (Reference 2 (Obj [(''toString'', Null)]), Null)]
     [Primitive (Str ''Z''), Reference 2 (Obj [(''toString'', Null)])] =
     ([ConsoleWarn [Text ''WARN: Some entries in the baseline did not match anything from dash-licenses output:''],
       ConsoleLog [Text ''> Z'']], Throw TypeError)"
proof -
  let ?m = "[(Primitive (Str ''A''), Null), (Primitive (Str ''Z''), Str ''note''), (Primitive (Str ''Y''), Null)]"
  let ?z = "Primitive (Str ''Z'')"
  let ?y = "Primitive (Str ''Y'')"
  let ?o = "Reference 2 (Obj [(''toString'', Null)])"
  let ?m' = "[(?z, Null), (Primitive (Str ''A''), Null), (?o, Null)]"
  have g: "mapGet ?m ?z = Str ''note''" "mapGet ?m ?y = Null" "mapGet ?m' ?z = Null"
    by (simp_all add: mapGet_def)
  have w: "warn exampleHost msg = ConsoleWarn [Text (''WARN: '' @ msg)]" for msg
    by (simp add: warn_def yellow_def style_def exampleHost_def)
  have m: "magenta exampleHost msg = msg" for msg
    by (simp add: magenta_def style_def exampleHost_def)
  have z: "toString exampleHost (keyValue ?z) = Inr ''Z''"
    and y: "toString exampleHost (keyValue ?y) = Inr ''Y''"
    and o: "toString exampleHost (keyValue ?o) = Inl TypeError"
    by (simp_all add: keyValue_def)
  have conv: "\<forall>k\<in>set [?z, ?y]. \<exists>name. toString exampleHost (keyValue k) = Inr name"
    using z y by simp
  note inst = unmatched_entries_reported [where h = exampleHost and baseline = ?m]
  from inst [where v = "Str ''note''"] have t1: "truthy (Str ''note'')" by simp
  from inst [where v = Null] have t2: "\<not> truthy Null" by simp
  from inst [where k = ?z and name = "''Z''"] z t1 g
  have lz: "keyLines exampleHost ?m ?z = [ConsoleLog [Text ''> Z''], ConsoleWarn [Text ''Z:'', Value (Str ''note'')]]"
    by (simp add: m)
  from inst [where k = ?y and name = "''Y''"] y t2 g
  have ly: "keyLines exampleHost ?m ?y = [ConsoleLog [Text ''> Y'']]"
    by (simp add: m)
  from inst [where unmatched = "[?z, ?y]"] conv
  have "reportUnmatched exampleHost ?m [?z, ?y] =
      (warn exampleHost ''Some entries in the baseline did not match anything from dash-licenses output:''
         # concat (map (keyLines exampleHost ?m) [?z, ?y]), Normal ())"
    by simp
  then have r1: "reportUnmatched exampleHost ?m [?z, ?y] =
     ([ConsoleWarn [Text ''WARN: Some entries in the baseline did not match anything from dash-licenses output:''],
       ConsoleLog [Text ''> Z''],
       ConsoleWarn [Text ''Z:'', Value (Str ''note'')],
       ConsoleLog [Text ''> Y'']], Normal ())"
    by (simp add: lz ly w)
  note inst' = unmatched_entries_reported [where h = exampleHost and baseline = ?m']
  from inst' [where k = ?z and name = "''Z''"] z t2 g
  have lz': "keyLines exampleHost ?m' ?z = [ConsoleLog [Text ''> Z'']]"
    by (simp add: m)
  from inst' [where ks = "[?z]" and k = ?o and e = TypeError and rest = "[]"] z o
  have "reportUnmatched exampleHost ?m' [?z, ?o] =
      (warn exampleHost ''Some entries in the baseline did not match anything from dash-licenses output:''
         # concat (map (keyLines exampleHost ?m') [?z]), Throw TypeError)"
    by simp
  then have r2: "reportUnmatched exampleHost ?m' [?z, ?o] =
     ([ConsoleWarn [Text ''WARN: Some entries in the baseline did not match anything from dash-licenses output:''],
       ConsoleLog [Text ''> Z'']], Throw TypeError)"
    by (simp add: lz' w)
  from z y r1 t1 t2 o r2 show ?thesis by (simp only: simp_thms)
qed

text \<open>
  The counterexamples to C9 as stated. The baseline entry \<open>Z\<close> is unmatched and its
  annotation is \<^verbatim>\<open>false\<close>, which is not \<^verbatim>\<open>null\<close>: the run prints the key and no
  annotation. And in an array baseline the unmatched element is an array that holds an
  object with a property \<^verbatim>\<open>toString\<close>: nothing is unhandled, and the run fails on
  the unmatched entry.
\<close>

theorem annotation_not_printed_or_report_throws:
  "mapGet [(Primitive (Str ''A''), Null), (Primitive (Str ''Z''), Bool False)] (Primitive (Str ''Z''))
     = Bool False \<and>
   script exampleHost
     (exampleWorld 0 [''A, MIT, restricted, x''] True (Inr (Obj [(''A'', Null), (''Z'', Bool False)]))) =
     ([ConsoleWarn [Text ''INFO: Running dash-licenses...''],
       ConsoleWarn [Text ''INFO: Checking results against the baseline...''],
       ConsoleWarn [Text ''WARN: Some entries in the baseline did not match anything from dash-licenses output:''],
       ConsoleLog [Text ''> Z''],
       ConsoleWarn [Text ''INFO: Done.'']], 0) \<and>
   snd (reconcile
     [(Primitive (Str ''A''), Null), (Reference 1 (Arr [Str ''x'', Obj [(''toString'', Null)]]), Null)]
     [\<lparr>dependency = Some ''A'', license = Some ''MIT'', status = Some ''restricted'', source = Some ''x''\<rparr>])
     = [] \<and>
   script exampleHost
     (exampleWorld 0 [''A, MIT, restricted, x''] True
        (Inr (Arr [Str ''A'', Arr [Str ''x'', Obj [(''toString'', Null)]]]))) =
     ([ConsoleWarn [Text ''INFO: Running dash-licenses...''],
       ConsoleWarn [Text ''INFO: Checking results against the baseline...''],
       ConsoleWarn [Text ''WARN: Some entries in the baseline did not match anything from dash-licenses output:''],
       ConsoleError [ErrorObject TypeError]], 1)"
  by code_simp

text \<open>
  C10: a subprocess that cannot be started at all (\<^verbatim>\<open>spawnSync\<close> returns an
  \<^verbatim>\<open>error\<close>) ends the run with exit code 1, for every call of \<^verbatim>\<open>spawn\<close>: the
  error is printed and the process exits. This holds for the download and for the
  scanner alike, although a scanner that did start never ends the run at this point,
  whatever its exit code or signal.
\<close>

theorem spawn_error_aborts:
  "(spawn_error r = Some e \<longrightarrow> spawn b as r = ([ConsoleError [ErrorObject e]], Exit 1)) \<and>
   (\<not> jarExists w \<and> mkdirFailure w = None \<and> spawn_error (curlReturns w) = Some e \<longrightarrow>
      script h w = ([info h ''Fetching dash-licenses...'', ConsoleError [ErrorObject e]], 1)) \<and>
   (snd (fetch h w) = Normal () \<and> snd (backup h w) = Normal () \<and>
    spawn_error (javaReturns w) = Some e \<longrightarrow>
      script h w =
        (fst (fetch h w) @ fst (backup h w)
           @ [info h ''Running dash-licenses...'', ConsoleError [ErrorObject e]], 1)) \<and>
   (spawn_error (javaReturns w) = None \<longrightarrow> snd (scan h w) = Normal ())"
proof (intro conjI impI)
  assume "spawn_error r = Some e"
  then show "spawn b as r = ([ConsoleError [ErrorObject e]], Exit 1)"
    by (rule spawn_failed)
next
  assume "\<not> jarExists w \<and> mkdirFailure w = None \<and> spawn_error (curlReturns w) = Some e"
  then have "fetch h w = ([info h ''Fetching dash-licenses...'', ConsoleError [ErrorObject e]], Exit 1)"
    by (simp add: fetch_spawn_failed)
  then show "script h w = ([info h ''Fetching dash-licenses...'', ConsoleError [ErrorObject e]], 1)"
    by (rule script_fetch_exit)
next
  assume a: "snd (fetch h w) = Normal () \<and> snd (backup h w) = Normal () \<and>
    spawn_error (javaReturns w) = Some e"
  then have "scan h w = ([info h ''Running dash-licenses...'', ConsoleError [ErrorObject e]], Exit 1)"
    by (simp add: scan_failed)
  with a show "script h w =
        (fst (fetch h w) @ fst (backup h w)
           @ [info h ''Running dash-licenses...'', ConsoleError [ErrorObject e]], 1)"
    by (simp add: script_scan_exit)
next
  assume "spawn_error (javaReturns w) = None"
  then show "snd (scan h w) = Normal ()"
    by (simp add: scan_started)
qed

theorem spawn_error_aborts_witness:
  "spawn_error (javaReturns ((exampleWorld 0 [] False (Inr Null))
       \<lparr>javaReturns := spawnFailure (HostError ''spawnSync java ENOENT'')\<rparr>))
     = Some (HostError ''spawnSync java ENOENT'') \<and>
   script exampleHost ((exampleWorld 0 [] False (Inr Null))
       \<lparr>javaReturns := spawnFailure (HostError ''spawnSync java ENOENT'')\<rparr>)
     = ([ConsoleWarn [Text ''INFO: Running dash-licenses...''],
         ConsoleError [ErrorObject (HostError ''spawnSync java ENOENT'')]], 1) \<and>
   script exampleHost ((exampleWorld 0 [] False (Inr Null))
       \<lparr>jarExists := False, curlReturns := spawnFailure (HostError ''spawnSync curl ENOENT'')\<rparr>)
     = ([ConsoleWarn [Text ''INFO: Fetching dash-licenses...''],
         ConsoleError [ErrorObject (HostError ''spawnSync curl ENOENT'')]], 1) \<and>
   snd (scan exampleHost (exampleWorld 3 [] False (Inr Null))) = Normal ()"
proof -
  let ?e = "HostError ''spawnSync java ENOENT''"
  let ?w = "(exampleWorld 0 [] False (Inr Null))\<lparr>javaReturns := spawnFailure ?e\<rparr>"
  let ?e' = "HostError ''spawnSync curl ENOENT''"
  let ?w' = "(exampleWorld 0 [] False (Inr Null))\<lparr>jarExists := False, curlReturns := spawnFailure ?e'\<rparr>"
  have java: "snd (fetch exampleHost ?w) = Normal () \<and> snd (backup exampleHost ?w) = Normal () \<and>
      spawn_error (javaReturns ?w) = Some ?e"
    by (simp add: exampleWorld_def spawnFailure_def fetch_def backup_def ret_def)
  have pre: "fst (fetch exampleHost ?w) = [] \<and> fst (backup exampleHost ?w) = []"
    by (simp add: exampleWorld_def fetch_def backup_def ret_def)
  have curl: "\<not> jarExists ?w' \<and> mkdirFailure ?w' = None \<and> spawn_error (curlReturns ?w') = Some ?e'"
    by (simp add: exampleWorld_def spawnFailure_def)
  have started: "spawn_error (javaReturns (exampleWorld 3 [] False (Inr Null))) = None"
    by (simp add: exampleWorld_def exited_def)
  have texts: "info exampleHost ''Running dash-licenses...'' = ConsoleWarn [Text ''INFO: Running dash-licenses...'']"
    "info exampleHost ''Fetching dash-licenses...'' = ConsoleWarn [Text ''INFO: Fetching dash-licenses...'']"
    by (simp_all add: info_def cyan_def style_def exampleHost_def)
  from spawn_error_aborts [of _ ?e _ _ ?w exampleHost] java pre texts
  have 1: "script exampleHost ?w = ([ConsoleWarn [Text ''INFO: Running dash-licenses...''],
         ConsoleError [ErrorObject ?e]], 1)"
    by simp
  from spawn_error_aborts [of _ ?e' _ _ ?w' exampleHost] curl texts
  have 2: "script exampleHost ?w' = ([ConsoleWarn [Text ''INFO: Fetching dash-licenses...''],
         ConsoleError [ErrorObject ?e']], 1)"
    by simp
  from spawn_error_aborts [of _ _ _ _ "exampleWorld 3 [] False (Inr Null)" exampleHost] started
  have 3: "snd (scan exampleHost (exampleWorld 3 [] False (Inr Null))) = Normal ()"
    by simp
  from java 1 2 3 show ?thesis by simp
qed

end
